theory Spec2Isabelle
  imports Complex_Main "HOL-Library.Sublist" "HOL-Library.Multiset" "HOL-Library.Char_ord"
    "HOL-Library.List_Lexorder"
begin

section \<open>The autotrading audit log\<close>

text \<open>
  \<^verbatim>\<open>add_autotrading_log\<close> of \<^verbatim>\<open>multi-broker-trading-server.py\<close> builds an entry
  from the clock, the message and the severity tag, appends it to the global list and,
  when the list has grown beyond 500 entries, rebinds the global to the slice
  \<^verbatim>\<open>autotrading_logs[-500:]\<close>. The clock reading is an argument of the model.
\<close>

record log_entry =
  timestamp :: string
  message :: string
  log_type :: string

definition add_autotrading_log :: "string \<Rightarrow> log_entry list \<Rightarrow> string \<Rightarrow> string \<Rightarrow> log_entry list" where
  "add_autotrading_log now autotrading_logs msg ty =
     (let log_entry = \<lparr>timestamp = now, message = msg, log_type = ty\<rparr>;
          logs = autotrading_logs @ [log_entry]
      in if length logs > 500 then drop (length logs - 500) logs else logs)"

section \<open>Python string operations used by the adapters\<close>

definition endswith :: "string \<Rightarrow> string \<Rightarrow> bool" where
  "endswith s suf = (length suf \<le> length s \<and> drop (length s - length suf) s = suf)"

definition remove_char :: "char \<Rightarrow> string \<Rightarrow> string" where
  \<comment> \<open>\<^verbatim>\<open>s.replace(c, '')\<close> for a one-character \<^verbatim>\<open>c\<close>\<close>
  "remove_char c s = filter (\<lambda>x. x \<noteq> c) s"

definition upper_char :: "char \<Rightarrow> char" where
  \<comment> \<open>\<^verbatim>\<open>str.upper\<close> on one ASCII character: a..z become A..Z, the rest is kept\<close>
  "upper_char c =
     (let n = (of_char c :: nat) in if 97 \<le> n \<and> n \<le> 122 then char_of (n - 32) else c)"

definition upper :: "string \<Rightarrow> string" where
  "upper s = map upper_char s"

definition drop_last :: "nat \<Rightarrow> string \<Rightarrow> string" where
  \<comment> \<open>\<^verbatim>\<open>s[:-k]\<close> for \<^verbatim>\<open>k > 0\<close>: everything but the last \<^verbatim>\<open>k\<close> characters (empty when \<^verbatim>\<open>s\<close> is shorter)\<close>
  "drop_last k s = take (length s - k) s"

section \<open>Symbol normalisation of the three adapters\<close>

definition crypto_classes :: "string list" where
  "crypto_classes = [''crypto'', ''crypto_futures'']"

definition alpaca_normalize_symbol :: "string \<Rightarrow> string \<Rightarrow> string" where
  "alpaca_normalize_symbol symbol asset_class =
     (if asset_class = ''crypto'' then
        (if CHR ''/'' \<notin> set symbol then
           (if endswith symbol ''USD'' then drop_last 3 symbol @ ''/USD''
            else if endswith symbol ''USDT'' then drop_last 4 symbol @ ''/USD''
            else symbol)
         else symbol)
      else symbol)"

definition bybit_normalize_symbol :: "string \<Rightarrow> string \<Rightarrow> string" where
  "bybit_normalize_symbol symbol asset_class =
     (if asset_class \<in> set crypto_classes then
        (let s1 = remove_char CHR ''-'' (remove_char CHR ''/'' symbol);
             s2 = (if \<not> endswith s1 ''USDT'' \<and> \<not> endswith s1 ''USD'' then s1 @ ''USDT'' else s1);
             s3 = (if endswith s2 ''USD'' \<and> \<not> endswith s2 ''USDT'' then drop_last 3 s2 @ ''USDT'' else s2)
         in s3)
      else symbol)"

definition binance_normalize_symbol :: "string \<Rightarrow> string \<Rightarrow> string" where
  "binance_normalize_symbol symbol asset_class =
     (if asset_class \<in> set crypto_classes then
        (let s1 = upper (remove_char CHR ''-'' (remove_char CHR ''/'' symbol))
         in if \<not> endswith s1 ''USDT'' then
              (if endswith s1 ''USD'' then drop_last 3 s1 @ ''USDT'' else s1 @ ''USDT'')
            else s1)
      else symbol)"

datatype adapter = Alpaca | Bybit | Binance

fun normalize_symbol :: "adapter \<Rightarrow> string \<Rightarrow> string \<Rightarrow> string" where
  "normalize_symbol Alpaca symbol asset_class = alpaca_normalize_symbol symbol asset_class"
| "normalize_symbol Bybit symbol asset_class = bybit_normalize_symbol symbol asset_class"
| "normalize_symbol Binance symbol asset_class = binance_normalize_symbol symbol asset_class"

definition clean :: "string \<Rightarrow> bool" where
  \<comment> \<open>no separator is left in the symbol\<close>
  "clean s = (CHR ''/'' \<notin> set s \<and> CHR ''-'' \<notin> set s)"

section \<open>Python values, exceptions and library functions\<close>

text \<open>
  The values that travel through the tool layer are JSON-like Python objects. Floats
  are modelled as exact rationals (no rounding, no NaN or infinity), dictionaries as
  association lists in insertion order, \<^verbatim>\<open>datetime\<close> objects by their epoch seconds.
\<close>

datatype pyval =
    PNone
  | PBool bool
  | PInt int
  | PFloat rat
  | PStr string
  | PDatetime int
  | PList "pyval list"
  | PDict "(string \<times> pyval) list"

text \<open>
  Exceptions are values. Only subclasses of \<^verbatim>\<open>Exception\<close> are modelled; each
  carries the text of \<^verbatim>\<open>str(e)\<close>, except \<^verbatim>\<open>KeyError\<close>, which carries the key.
\<close>

datatype exn =
    NotImplementedError string
  | KeyError string
  | TypeError string
  | AttributeError string
  | ValueError string
  | ZeroDivisionError string
  | OtherError string

fun exn_str :: "exn \<Rightarrow> string" where
  "exn_str (KeyError k) = [CHR 0x27] @ k @ [CHR 0x27]"
| "exn_str (NotImplementedError m) = m"
| "exn_str (TypeError m) = m"
| "exn_str (AttributeError m) = m"
| "exn_str (ValueError m) = m"
| "exn_str (ZeroDivisionError m) = m"
| "exn_str (OtherError m) = m"

definition try_bind :: "exn + 'a \<Rightarrow> ('a \<Rightarrow> exn + 'b) \<Rightarrow> exn + 'b" where
  \<comment> \<open>sequencing of two steps either of which may raise\<close>
  "try_bind m f = (case m of Inl e \<Rightarrow> Inl e | Inr x \<Rightarrow> f x)"

text \<open>
  Functions of the Python standard library that the repository calls but does not
  define are parameters of the model.
\<close>

record pylib =
  str_of :: "pyval \<Rightarrow> string"  \<comment> \<open>\<^verbatim>\<open>str(v)\<close> and \<^verbatim>\<open>f"{v}"\<close>\<close>
  fmt_2f :: "rat \<Rightarrow> string"  \<comment> \<open>\<^verbatim>\<open>f"{x:.2f}"\<close>\<close>
  hmac_sha256_hex :: "string \<Rightarrow> string \<Rightarrow> string"  \<comment> \<open>\<^verbatim>\<open>hmac.new(key, msg, sha256).hexdigest()\<close>\<close>
  float_of_str :: "string \<Rightarrow> rat option"  \<comment> \<open>\<^verbatim>\<open>float(s)\<close> on a string, \<open>None\<close> when it raises\<close>
  int_of_str :: "string \<Rightarrow> int option"  \<comment> \<open>\<^verbatim>\<open>int(s)\<close> on a string, \<open>None\<close> when it raises\<close>
  json_text :: "pyval \<Rightarrow> string"  \<comment> \<open>the text \<^verbatim>\<open>json.dumps\<close> produces for a serialisable value\<close>
  json_parse :: "string \<Rightarrow> exn + pyval"  \<comment> \<open>\<^verbatim>\<open>json.loads\<close>\<close>

fun truthy :: "pyval \<Rightarrow> bool" where
  "truthy PNone = False"
| "truthy (PBool b) = b"
| "truthy (PInt i) = (i \<noteq> 0)"
| "truthy (PFloat r) = (r \<noteq> 0)"
| "truthy (PStr s) = (s \<noteq> [])"
| "truthy (PDatetime t) = True"
| "truthy (PList xs) = (xs \<noteq> [])"
| "truthy (PDict kvs) = (kvs \<noteq> [])"

fun num_val :: "pyval \<Rightarrow> rat option" where
  \<comment> \<open>the number a value denotes in a comparison; \<^verbatim>\<open>bool\<close> is a subclass of \<^verbatim>\<open>int\<close>\<close>
  "num_val (PInt i) = Some (of_int i)"
| "num_val (PFloat r) = Some r"
| "num_val (PBool b) = Some (if b then 1 else 0)"
| "num_val v = None"

definition py_gt_int :: "pyval \<Rightarrow> int \<Rightarrow> exn + bool" where
  \<comment> \<open>\<^verbatim>\<open>v > n\<close> for an integer \<^verbatim>\<open>n\<close>: defined between numbers, a \<^verbatim>\<open>TypeError\<close> otherwise\<close>
  "py_gt_int v n =
     (case num_val v of
        Some r \<Rightarrow> Inr (r > of_int n)
      | None \<Rightarrow> Inl (TypeError ''> not supported between these types''))"

definition py_eq_zero :: "pyval \<Rightarrow> bool" where
  \<comment> \<open>\<^verbatim>\<open>v == 0\<close>\<close>
  "py_eq_zero v = (num_val v = Some 0)"

definition dict_get :: "(string \<times> pyval) list \<Rightarrow> string \<Rightarrow> pyval \<Rightarrow> pyval" where
  "dict_get kvs k d = (case map_of kvs k of None \<Rightarrow> d | Some v \<Rightarrow> v)"

fun dict_set :: "(string \<times> pyval) list \<Rightarrow> string \<Rightarrow> pyval \<Rightarrow> (string \<times> pyval) list" where
  \<comment> \<open>\<^verbatim>\<open>d[k] = v\<close>: an existing key keeps its place, a new key goes last\<close>
  "dict_set [] k v = [(k, v)]"
| "dict_set ((k', v') # kvs) k v = (if k' = k then (k, v) # kvs else (k', v') # dict_set kvs k v)"

fun py_get :: "pyval \<Rightarrow> string \<Rightarrow> pyval \<Rightarrow> exn + pyval" where
  \<comment> \<open>\<^verbatim>\<open>obj.get(k, d)\<close>: only a dictionary has the method\<close>
  "py_get (PDict kvs) k d = Inr (dict_get kvs k d)"
| "py_get v k d = Inl (AttributeError ''object has no attribute get'')"

fun py_getitem :: "pyval \<Rightarrow> string \<Rightarrow> exn + pyval" where
  \<comment> \<open>\<^verbatim>\<open>obj[k]\<close> for a string key\<close>
  "py_getitem (PDict kvs) k = (case map_of kvs k of None \<Rightarrow> Inl (KeyError k) | Some v \<Rightarrow> Inr v)"
| "py_getitem v k = Inl (TypeError ''object is not subscriptable by a string'')"

fun py_iter :: "pyval \<Rightarrow> exn + pyval list" where
  \<comment> \<open>the items a \<^verbatim>\<open>for\<close> loop visits: a dictionary yields its keys, a string its characters\<close>
  "py_iter (PList xs) = Inr xs"
| "py_iter (PDict kvs) = Inr (map (\<lambda>kv. PStr (fst kv)) kvs)"
| "py_iter (PStr s) = Inr (map (\<lambda>c. PStr [c]) s)"
| "py_iter v = Inl (TypeError ''object is not iterable'')"

definition trunc :: "rat \<Rightarrow> int" where
  "trunc r = (if r \<ge> 0 then \<lfloor>r\<rfloor> else \<lceil>r\<rceil>)"

fun py_float :: "pylib \<Rightarrow> pyval \<Rightarrow> exn + rat" where
  \<comment> \<open>\<^verbatim>\<open>float(v)\<close>\<close>
  "py_float L (PInt i) = Inr (of_int i)"
| "py_float L (PFloat r) = Inr r"
| "py_float L (PBool b) = Inr (if b then 1 else 0)"
| "py_float L (PStr s) =
     (case float_of_str L s of None \<Rightarrow> Inl (ValueError ''could not convert string to float'') | Some r \<Rightarrow> Inr r)"
| "py_float L v = Inl (TypeError ''float() argument must be a string or a real number'')"

fun py_int :: "pylib \<Rightarrow> pyval \<Rightarrow> exn + int" where
  \<comment> \<open>\<^verbatim>\<open>int(v)\<close>\<close>
  "py_int L (PInt i) = Inr i"
| "py_int L (PFloat r) = Inr (trunc r)"
| "py_int L (PBool b) = Inr (if b then 1 else 0)"
| "py_int L (PStr s) =
     (case int_of_str L s of None \<Rightarrow> Inl (ValueError ''invalid literal for int()'') | Some i \<Rightarrow> Inr i)"
| "py_int L v = Inl (TypeError ''int() argument must be a string or a real number'')"

fun json_serializable :: "pyval \<Rightarrow> bool" where
  \<comment> \<open>what \<^verbatim>\<open>json.dumps\<close> accepts without a \<^verbatim>\<open>default\<close> hook: everything but \<^verbatim>\<open>datetime\<close>\<close>
  "json_serializable (PDatetime t) = False"
| "json_serializable (PList xs) = list_all json_serializable xs"
| "json_serializable (PDict kvs) = list_all (\<lambda>kv. json_serializable (snd kv)) kvs"
| "json_serializable v = True"

definition json_dumps :: "pylib \<Rightarrow> pyval \<Rightarrow> exn + string" where
  "json_dumps L v =
     (if json_serializable v then Inr (json_text L v)
      else Inl (TypeError ''Object of type datetime is not JSON serializable''))"

text \<open>
  An instance of the library parameters for evaluating the model on concrete inputs.
  Its \<open>str_of\<close> agrees with Python on \<^verbatim>\<open>None\<close>, booleans, integers and strings; the
  digest is a placeholder that shows the key and the message it was given, the float
  formats and the JSON codec are placeholders too.
\<close>

definition digit_char :: "nat \<Rightarrow> char" where
  "digit_char d = ''0123456789'' ! d"

fun str_nat :: "nat \<Rightarrow> string" where
  "str_nat n = (if n < 10 then [digit_char n] else str_nat (n div 10) @ [digit_char (n mod 10)])"

definition str_int :: "int \<Rightarrow> string" where
  "str_int i = (if i < 0 then ''-'' @ str_nat (nat (- i)) else str_nat (nat i))"

fun example_str :: "pyval \<Rightarrow> string" where
  "example_str PNone = ''None''"
| "example_str (PBool b) = (if b then ''True'' else ''False'')"
| "example_str (PInt i) = str_int i"
| "example_str (PStr s) = s"
| "example_str v = ''<object>''"

definition example_lib :: pylib where
  "example_lib =
     \<lparr>str_of = example_str,
      fmt_2f = (\<lambda>r. ''<2f>''),
      hmac_sha256_hex = (\<lambda>key msg. key @ ''|'' @ msg),
      float_of_str = (\<lambda>s. None),
      int_of_str = (\<lambda>s. None),
      json_text = (\<lambda>v. ''<json>''),
      json_parse = (\<lambda>s. Inr (PDict []))\<rparr>"

section \<open>Request signing of the Bybit and Binance adapters\<close>

record credentials =
  api_key :: string
  api_secret :: string
  paper_mode :: bool

definition recv_window :: int where
  \<comment> \<open>\<^verbatim>\<open>self.recv_window = 5000\<close> in both constructors\<close>
  "recv_window = 5000"

fun join :: "string \<Rightarrow> string list \<Rightarrow> string" where
  \<comment> \<open>\<^verbatim>\<open>sep.join(parts)\<close>\<close>
  "join sep [] = []"
| "join sep [x] = x"
| "join sep (x # y # ys) = x @ sep @ join sep (y # ys)"

definition query_string :: "pylib \<Rightarrow> (string \<times> pyval) list \<Rightarrow> string" where
  \<comment> \<open>\<^verbatim>\<open>'&'.join([f"{k}={v}" for k, v in items])\<close>\<close>
  "query_string L items = join ''&'' (map (\<lambda>kv. fst kv @ ''='' @ str_of L (snd kv)) items)"

definition sorted_items :: "(string \<times> pyval) list \<Rightarrow> (string \<times> pyval) list" where
  \<comment> \<open>\<^verbatim>\<open>sorted(params.items())\<close>: the keys of a dictionary are distinct, so the pairs are
      ordered by key\<close>
  "sorted_items items = sort_key fst items"

definition bybit_generate_signature :: "pylib \<Rightarrow> credentials \<Rightarrow> (string \<times> pyval) list \<Rightarrow> string" where
  "bybit_generate_signature L c params =
     hmac_sha256_hex L (api_secret c) (query_string L (sorted_items params))"

definition bybit_signed_params ::
  "pylib \<Rightarrow> credentials \<Rightarrow> int \<Rightarrow> (string \<times> pyval) list \<Rightarrow> (string \<times> pyval) list" where
  \<comment> \<open>the \<^verbatim>\<open>if signed:\<close> block of \<^verbatim>\<open>BybitBroker._make_request\<close>; \<open>ts\<close> is the clock in milliseconds\<close>
  "bybit_signed_params L c ts params =
     (let p1 = dict_set params ''api_key'' (PStr (api_key c));
          p2 = dict_set p1 ''timestamp'' (PInt ts);
          p3 = dict_set p2 ''recv_window'' (PInt recv_window)
      in dict_set p3 ''sign'' (PStr (bybit_generate_signature L c p3)))"

definition binance_generate_signature :: "pylib \<Rightarrow> credentials \<Rightarrow> string \<Rightarrow> string" where
  "binance_generate_signature L c params = hmac_sha256_hex L (api_secret c) params"

definition binance_signed_params ::
  "pylib \<Rightarrow> credentials \<Rightarrow> int \<Rightarrow> (string \<times> pyval) list \<Rightarrow> (string \<times> pyval) list" where
  \<comment> \<open>the \<^verbatim>\<open>if signed:\<close> block of \<^verbatim>\<open>BinanceBroker._make_request\<close>: the query string
      follows the insertion order of the dictionary\<close>
  "binance_signed_params L c ts params =
     (let p1 = dict_set params ''timestamp'' (PInt ts);
          p2 = dict_set p1 ''recvWindow'' (PInt recv_window);
          qs = query_string L p2
      in dict_set p2 ''signature'' (PStr (binance_generate_signature L c qs)))"

text \<open>The parameters over which each adapter computes its signature.\<close>

definition bybit_signed_base :: "credentials \<Rightarrow> int \<Rightarrow> (string \<times> pyval) list \<Rightarrow> (string \<times> pyval) list" where
  "bybit_signed_base c ts params =
     dict_set (dict_set (dict_set params ''api_key'' (PStr (api_key c))) ''timestamp'' (PInt ts))
       ''recv_window'' (PInt recv_window)"

definition binance_signed_base :: "int \<Rightarrow> (string \<times> pyval) list \<Rightarrow> (string \<times> pyval) list" where
  "binance_signed_base ts params =
     dict_set (dict_set params ''timestamp'' (PInt ts)) ''recvWindow'' (PInt recv_window)"

text \<open>A concrete request for evaluating the signing functions.\<close>

definition example_credentials :: credentials where
  "example_credentials = \<lparr>api_key = ''key'', api_secret = ''secret'', paper_mode = True\<rparr>"

definition example_order_params :: "(string \<times> pyval) list" where
  "example_order_params = [(''symbol'', PStr ''BTCUSDT''), (''side'', PStr ''SELL'')]"


section \<open>The venue, and the position and close-position methods of Bybit and Binance\<close>

text \<open>
  The network is a parameter. A request is answered by the venue with the decoded JSON
  body, or the HTTP layer raises (\<^verbatim>\<open>raise_for_status\<close>, connection errors). The answer
  may depend on how many requests were sent before. Every adapter method takes the list
  of requests sent so far and returns it extended by the requests it issued, so that what
  reached the network, and in which order, can be read off the result.
\<close>

record http_request =
  http_method :: string
  http_url :: string
  http_params :: "(string \<times> pyval) list"
  http_headers :: "(string \<times> string) list"

record venue =
  respond :: "nat \<Rightarrow> http_request \<Rightarrow> exn + pyval"
  clock_ms :: "nat \<Rightarrow> int"  \<comment> \<open>\<^verbatim>\<open>int(time.time() * 1000)\<close> when the n-th request is built\<close>

record position =
  pos_symbol :: pyval
  pos_qty :: rat
  avg_entry_price :: rat
  current_price :: rat
  market_value :: rat
  unrealized_pl :: rat
  unrealized_pl_percent :: rat
  pos_side :: string
  pos_asset_class :: string
  pos_exchange :: string
  pos_leverage :: int

definition bybit_base_url :: "credentials \<Rightarrow> string" where
  "bybit_base_url c =
     (if paper_mode c then ''https://api-testnet.bybit.com'' else ''https://api.bybit.com'')"

definition bybit_check_response :: "pylib \<Rightarrow> pyval \<Rightarrow> exn + pyval" where
  \<comment> \<open>the tail of \<^verbatim>\<open>BybitBroker._make_request\<close> after \<^verbatim>\<open>response.json()\<close>\<close>
  "bybit_check_response L data =
     try_bind (py_get data ''ret_code'' PNone) (\<lambda>ret_code.
     try_bind (py_get data ''retCode'' PNone) (\<lambda>retCode.
       if \<not> py_eq_zero ret_code \<and> \<not> py_eq_zero retCode then
         try_bind (py_get data ''ret_msg'' PNone) (\<lambda>ret_msg.
         try_bind (py_get data ''retMsg'' PNone) (\<lambda>retMsg.
           Inl (OtherError (''Bybit API error: '' @ str_of L (if truthy ret_msg then ret_msg else retMsg)))))
       else py_get data ''result'' (PDict [])))"

definition bybit_make_request ::
  "pylib \<Rightarrow> credentials \<Rightarrow> venue \<Rightarrow> string \<Rightarrow> string \<Rightarrow> (string \<times> pyval) list \<Rightarrow> bool
     \<Rightarrow> http_request list \<Rightarrow> (exn + pyval) \<times> http_request list" where
  "bybit_make_request L c V method endpoint params signed sent =
     (let params' = (if signed then bybit_signed_params L c (clock_ms V (length sent)) params else params);
          req = \<lparr>http_method = (if method = ''GET'' then ''GET'' else ''POST''),
                 http_url = bybit_base_url c @ endpoint,
                 http_params = params',
                 http_headers = [(''Content-Type'', ''application/json'')]\<rparr>
      in (try_bind (respond V (length sent) req) (bybit_check_response L), sent @ [req]))"

definition bybit_position_row :: "pylib \<Rightarrow> pyval \<Rightarrow> exn + position option" where
  \<comment> \<open>the body of the loop of \<^verbatim>\<open>BybitBroker.get_positions\<close> for one row\<close>
  "bybit_position_row L pos =
     try_bind (py_get pos ''size'' (PInt 0)) (\<lambda>size_v.
     try_bind (py_float L size_v) (\<lambda>size.
       if size > 0 then
         try_bind (py_get pos ''side'' PNone) (\<lambda>side_v.
         let side = (if side_v = PStr ''Buy'' then ''long'' else ''short''); qty = size in
         try_bind (py_getitem pos ''symbol'') (\<lambda>symbol.
         try_bind (try_bind (py_get pos ''entry_price'' (PInt 0)) (py_float L)) (\<lambda>entry_price.
         try_bind (try_bind (py_get pos ''liq_price'' (PInt 0)) (py_float L)) (\<lambda>liq_price.
         try_bind (try_bind (py_get pos ''position_value'' (PInt 0)) (py_float L)) (\<lambda>position_value.
         try_bind (try_bind (py_get pos ''unrealised_pnl'' (PInt 0)) (py_float L)) (\<lambda>unrealised_pnl.
         try_bind (try_bind (py_get pos ''position_value'' (PInt 1)) (py_float L)) (\<lambda>divisor.
           if divisor = 0 then Inl (ZeroDivisionError ''float division by zero'')
           else
         try_bind (try_bind (py_get pos ''leverage'' (PInt 1)) (py_int L)) (\<lambda>leverage.
           Inr (Some \<lparr>pos_symbol = symbol,
                      pos_qty = (if side = ''long'' then qty else - qty),
                      avg_entry_price = entry_price,
                      current_price = liq_price,
                      market_value = position_value,
                      unrealized_pl = unrealised_pnl,
                      unrealized_pl_percent = (unrealised_pnl / divisor) * 100,
                      pos_side = side,
                      pos_asset_class = ''crypto_futures'',
                      pos_exchange = ''bybit'',
                      pos_leverage = leverage\<rparr>)))))))))
       else Inr None))"

fun collect_positions :: "(pyval \<Rightarrow> exn + position option) \<Rightarrow> pyval list \<Rightarrow> exn + position list" where
  \<comment> \<open>the \<^verbatim>\<open>for pos in ...\<close> loop: rows are visited in order, the first exception ends the loop\<close>
  "collect_positions row [] = Inr []"
| "collect_positions row (pos # rest) =
     try_bind (row pos) (\<lambda>r.
     try_bind (collect_positions row rest) (\<lambda>ps.
       Inr (case r of None \<Rightarrow> ps | Some p \<Rightarrow> p # ps)))"

definition bybit_get_positions ::
  "pylib \<Rightarrow> credentials \<Rightarrow> venue \<Rightarrow> http_request list \<Rightarrow> (exn + position list) \<times> http_request list" where
  "bybit_get_positions L c V sent =
     (let (r, sent') = bybit_make_request L c V ''GET'' ''/v2/private/position/list'' [] True sent
      in (try_bind r (\<lambda>futures_pos.
          try_bind (py_iter futures_pos) (collect_positions (bybit_position_row L))), sent'))"

definition opt_truthy :: "rat option \<Rightarrow> bool" where
  \<comment> \<open>\<^verbatim>\<open>if x:\<close> for an \<^verbatim>\<open>Optional[float]\<close>: neither \<^verbatim>\<open>None\<close> nor zero\<close>
  "opt_truthy x = (case x of None \<Rightarrow> False | Some r \<Rightarrow> r \<noteq> 0)"

definition close_quantity :: "rat \<Rightarrow> rat option \<Rightarrow> rat option \<Rightarrow> rat" where
  \<comment> \<open>the \<^verbatim>\<open>if percentage: ... elif qty: ... else: ...\<close> block, the same in both adapters\<close>
  "close_quantity current_qty qty percentage =
     (if opt_truthy percentage then current_qty * (the percentage / 100)
      else if opt_truthy qty then min (the qty) current_qty
      else current_qty)"

definition bybit_close_position ::
  "pylib \<Rightarrow> credentials \<Rightarrow> venue \<Rightarrow> string \<Rightarrow> rat option \<Rightarrow> rat option \<Rightarrow> http_request list
     \<Rightarrow> (exn + pyval) \<times> http_request list" where
  "bybit_close_position L c V symbol qty percentage sent =
     (let (r, sent1) = bybit_get_positions L c V sent in
      case r of
        Inl e \<Rightarrow> (Inl e, sent1)
      | Inr positions \<Rightarrow>
          (case find (\<lambda>p. pos_symbol p = PStr symbol) positions of
             None \<Rightarrow> (Inl (ValueError (''No position found for '' @ symbol)), sent1)
           | Some position \<Rightarrow>
               (let current_qty = \<bar>pos_qty position\<bar>;
                    side = pos_side position;
                    close_qty = close_quantity current_qty qty percentage;
                    close_side = (if side = ''long'' then ''Sell'' else ''Buy'');
                    params = [(''symbol'', PStr symbol),
                              (''side'', PStr close_side),
                              (''order_type'', PStr ''Market''),
                              (''qty'', PFloat close_qty),
                              (''time_in_force'', PStr ''GoodTillCancel''),
                              (''reduce_only'', PBool True),
                              (''close_on_trigger'', PBool False)];
                    (r2, sent2) = bybit_make_request L c V ''POST'' ''/v2/private/order/create'' params True sent1
                in (try_bind r2 (\<lambda>result.
                    try_bind (py_get result ''order_id'' PNone) (\<lambda>order_id.
                      Inr (PDict [(''order_id'', order_id),
                                  (''symbol'', PStr symbol),
                                  (''status'', PStr ''submitted''),
                                  (''side'', PStr close_side),
                                  (''qty'', PFloat close_qty)]))), sent2))))"

definition binance_base_url :: "credentials \<Rightarrow> bool \<Rightarrow> string" where
  "binance_base_url c use_spot =
     (if use_spot
      then (if paper_mode c then ''https://testnet.binance.vision'' else ''https://api.binance.com'')
      else (if paper_mode c then ''https://testnet.binancefuture.com'' else ''https://fapi.binance.com''))"

definition binance_make_request ::
  "pylib \<Rightarrow> credentials \<Rightarrow> venue \<Rightarrow> string \<Rightarrow> string \<Rightarrow> (string \<times> pyval) list \<Rightarrow> bool \<Rightarrow> bool
     \<Rightarrow> http_request list \<Rightarrow> (exn + pyval) \<times> http_request list" where
  "binance_make_request L c V method endpoint params signed use_spot sent =
     (let params' = (if signed then binance_signed_params L c (clock_ms V (length sent)) params else params);
          req = \<lparr>http_method = method,
                 http_url = binance_base_url c use_spot @ endpoint,
                 http_params = params',
                 http_headers = [(''X-MBX-APIKEY'', api_key c)]\<rparr>
      in if method = ''GET'' \<or> method = ''POST'' \<or> method = ''DELETE''
         then (respond V (length sent) req, sent @ [req])
         else (Inl (ValueError (''Unsupported method: '' @ method)), sent))"

definition binance_position_row :: "pylib \<Rightarrow> pyval \<Rightarrow> exn + position option" where
  \<comment> \<open>the body of the loop of \<^verbatim>\<open>BinanceBroker.get_positions\<close> for one row\<close>
  "binance_position_row L pos =
     try_bind (try_bind (py_get pos ''positionAmt'' (PInt 0)) (py_float L)) (\<lambda>pos_amt.
       if pos_amt \<noteq> 0 then
         try_bind (try_bind (py_get pos ''entryPrice'' (PInt 0)) (py_float L)) (\<lambda>entry_price.
         try_bind (try_bind (py_get pos ''markPrice'' (PInt 0)) (py_float L)) (\<lambda>mark_price.
         try_bind (try_bind (py_get pos ''unRealizedProfit'' (PInt 0)) (py_float L)) (\<lambda>unrealized_pnl.
         try_bind (py_getitem pos ''symbol'') (\<lambda>symbol.
         try_bind (try_bind (py_get pos ''leverage'' (PInt 1)) (py_int L)) (\<lambda>leverage.
           Inr (Some \<lparr>pos_symbol = symbol,
                      pos_qty = pos_amt,
                      avg_entry_price = entry_price,
                      current_price = mark_price,
                      market_value = \<bar>pos_amt * mark_price\<bar>,
                      unrealized_pl = unrealized_pnl,
                      unrealized_pl_percent =
                        (if entry_price \<noteq> 0 then unrealized_pnl / (\<bar>pos_amt\<bar> * entry_price) * 100 else 0),
                      pos_side = (if pos_amt > 0 then ''long'' else ''short''),
                      pos_asset_class = ''crypto_futures'',
                      pos_exchange = ''binance'',
                      pos_leverage = leverage\<rparr>))))))
       else Inr None)"

definition binance_get_positions ::
  "pylib \<Rightarrow> credentials \<Rightarrow> venue \<Rightarrow> http_request list \<Rightarrow> (exn + position list) \<times> http_request list" where
  "binance_get_positions L c V sent =
     (let (r, sent') = binance_make_request L c V ''GET'' ''/fapi/v2/positionRisk'' [] True False sent
      in (try_bind r (\<lambda>positions_data.
          try_bind (py_iter positions_data) (collect_positions (binance_position_row L))), sent'))"

definition binance_close_position ::
  "pylib \<Rightarrow> credentials \<Rightarrow> venue \<Rightarrow> string \<Rightarrow> rat option \<Rightarrow> rat option \<Rightarrow> http_request list
     \<Rightarrow> (exn + pyval) \<times> http_request list" where
  "binance_close_position L c V symbol qty percentage sent =
     (let (r, sent1) = binance_get_positions L c V sent in
      case r of
        Inl e \<Rightarrow> (Inl e, sent1)
      | Inr positions \<Rightarrow>
          (case find (\<lambda>p. pos_symbol p = PStr symbol) positions of
             None \<Rightarrow> (Inl (ValueError (''No position found for '' @ symbol)), sent1)
           | Some position \<Rightarrow>
               (let current_qty = \<bar>pos_qty position\<bar>;
                    side = pos_side position;
                    close_qty = close_quantity current_qty qty percentage;
                    close_side = (if side = ''long'' then ''SELL'' else ''BUY'');
                    params = [(''symbol'', PStr symbol),
                              (''side'', PStr close_side),
                              (''type'', PStr ''MARKET''),
                              (''quantity'', PFloat close_qty),
                              (''reduceOnly'', PStr ''true'')];
                    (r2, sent2) = binance_make_request L c V ''POST'' ''/fapi/v1/order'' params True False sent1
                in (try_bind r2 (\<lambda>result.
                    try_bind (py_get result ''orderId'' PNone) (\<lambda>orderId.
                    try_bind (py_get result ''status'' PNone) (\<lambda>status.
                      Inr (PDict [(''order_id'', PStr (str_of L orderId)),
                                  (''symbol'', PStr symbol),
                                  (''status'', status),
                                  (''side'', PStr close_side),
                                  (''qty'', PFloat close_qty)])))), sent2))))"

text \<open>
  A venue for evaluating the two methods: the first request (the position list) is
  answered with one long position of 7/2 BTCUSDT, every later request with an order
  acknowledgement.
\<close>

definition example_venue :: venue where
  "example_venue =
     \<lparr>respond = (\<lambda>n req.
        if n = 0 then
          (if http_url req = ''https://api-testnet.bybit.com/v2/private/position/list''
           then Inr (PDict [(''ret_code'', PInt 0),
                  (''result'', PList [PDict [(''symbol'', PStr ''BTCUSDT''), (''side'', PStr ''Buy''),
                                             (''size'', PFloat (7/2)), (''position_value'', PInt 100)]])])
           else Inr (PList [PDict [(''symbol'', PStr ''BTCUSDT''), (''positionAmt'', PFloat (7/2))]]))
        else Inr (PDict [(''ret_code'', PInt 0), (''result'', PDict [(''order_id'', PStr ''42'')]),
                         (''orderId'', PInt 42), (''status'', PStr ''NEW'')])),
      clock_ms = (\<lambda>n. 1000 + int n)\<rparr>"

section \<open>The close-position method of the Alpaca adapter\<close>

text \<open>
  Alpaca is reached through its SDK client, which is a parameter like the venue: a call is
  answered with an object (its attributes as a dictionary) or raises. The calls made are
  recorded in order.
\<close>

datatype sdk_call =
  SdkClosePosition string "string option"  \<comment> \<open>symbol and the \<^verbatim>\<open>qty\<close> field of the \<^verbatim>\<open>ClosePositionRequest\<close>, if one is passed\<close>

fun py_getattr :: "pyval \<Rightarrow> string \<Rightarrow> exn + pyval" where
  \<comment> \<open>\<^verbatim>\<open>obj.name\<close> on an SDK object\<close>
  "py_getattr (PDict kvs) k =
     (case map_of kvs k of None \<Rightarrow> Inl (AttributeError (''object has no attribute '' @ k)) | Some v \<Rightarrow> Inr v)"
| "py_getattr v k = Inl (AttributeError (''object has no attribute '' @ k))"

definition alpaca_close_position ::
  "pylib \<Rightarrow> (nat \<Rightarrow> sdk_call \<Rightarrow> exn + pyval) \<Rightarrow> string \<Rightarrow> rat option \<Rightarrow> rat option \<Rightarrow> sdk_call list
     \<Rightarrow> (exn + pyval) \<times> sdk_call list" where
  "alpaca_close_position L sdk symbol qty percentage calls =
     (let request = (if opt_truthy percentage then Some (str_of L (PFloat (the percentage)) @ ''%'')
                     else if opt_truthy qty then Some (str_of L (PFloat (the qty)))
                     else None);
          call = SdkClosePosition symbol request
      in (try_bind (sdk (length calls) call) (\<lambda>order.
          try_bind (py_getattr order ''id'') (\<lambda>order_id.
          try_bind (py_getattr order ''symbol'') (\<lambda>order_symbol.
          try_bind (py_getattr order ''status'') (\<lambda>order_status.
          try_bind (py_getattr order ''side'') (\<lambda>order_side.
          try_bind (py_getattr order ''qty'') (\<lambda>order_qty.
          try_bind (if truthy order_qty then try_bind (py_float L order_qty) (\<lambda>q. Inr (PFloat q))
                    else Inr (PInt 0)) (\<lambda>q.
            Inr (PDict [(''order_id'', PStr (str_of L order_id)),
                        (''symbol'', order_symbol),
                        (''status'', PStr (str_of L order_status)),
                        (''side'', PStr (str_of L order_side)),
                        (''qty'', q)])))))))), calls @ [call]))"

text \<open>The position the example venue reports, as each adapter decodes it.\<close>

definition example_bybit_position :: position where
  "example_bybit_position =
     \<lparr>pos_symbol = PStr ''BTCUSDT'', pos_qty = 7 / 2, avg_entry_price = 0, current_price = 0,
      market_value = 100, unrealized_pl = 0, unrealized_pl_percent = 0, pos_side = ''long'',
      pos_asset_class = ''crypto_futures'', pos_exchange = ''bybit'', pos_leverage = 1\<rparr>"

definition example_binance_position :: position where
  "example_binance_position =
     \<lparr>pos_symbol = PStr ''BTCUSDT'', pos_qty = 7 / 2, avg_entry_price = 0, current_price = 0,
      market_value = 0, unrealized_pl = 0, unrealized_pl_percent = 0, pos_side = ''long'',
      pos_asset_class = ''crypto_futures'', pos_exchange = ''binance'', pos_leverage = 1\<rparr>"

section \<open>The broker interface and the tool executor\<close>

text \<open>
  The executor sees a broker through the methods of \<^verbatim>\<open>BaseBroker\<close>. The capability
  queries are constants of the adapter. Every other method goes to the venue, so its
  outcome (the returned object or the exception raised) is given by \<open>invoke\<close>.
\<close>

datatype adapter_call =
    GetAccount
  | GetPositions
  | ClosePosition pyval pyval pyval  \<comment> \<open>symbol, qty, percentage\<close>
  | GetCryptoPrice pyval
  | PlaceCryptoOrder pyval pyval pyval pyval pyval  \<comment> \<open>symbol, side, qty, notional, leverage\<close>
  | PlaceStockOrder pyval pyval pyval pyval pyval pyval pyval pyval
      \<comment> \<open>symbol, side, qty, notional, order type, limit price, stop price, time in force\<close>
  | GetStockQuote pyval
  | GetStockBars pyval pyval int pyval  \<comment> \<open>symbol, timeframe, start (epoch seconds), limit\<close>
  | GetOrders pyval
  | CancelOrder pyval
  | CancelAllOrders
  | GetMarketStatus

record broker =
  get_broker_name :: string
  supports_crypto_leverage :: bool
  get_max_leverage :: "string \<Rightarrow> int"
  invoke :: "adapter_call \<Rightarrow> exn + pyval"

text \<open>
  The global state and the surroundings of \<^verbatim>\<open>execute_tool\<close>: the active broker (or
  \<^verbatim>\<open>None\<close>), the clock, the memory file, and the parts of the technical-analysis tool
  that lie outside the core (the Yahoo download and the indicator formulas).
\<close>

record env =
  lib :: pylib
  active_broker :: "broker option"
  wall_clock :: int  \<comment> \<open>\<^verbatim>\<open>datetime.now()\<close> in epoch seconds\<close>
  memory_exists :: bool
  memory_open :: "string \<Rightarrow> exn + unit"  \<comment> \<open>\<^verbatim>\<open>open("trading_memory.md", mode)\<close>\<close>
  memory_read :: "exn + string"
  memory_write :: "string \<Rightarrow> exn + unit"
  yahoo_prices :: "pyval \<Rightarrow> pyval \<Rightarrow> exn + pyval list"  \<comment> \<open>symbol, interval\<close>
  indicators :: "pyval \<Rightarrow> pyval list \<Rightarrow> exn + pyval"  \<comment> \<open>the result dictionary for 20 or more prices\<close>

definition error_result :: "string \<Rightarrow> pyval" where
  \<comment> \<open>\<^verbatim>\<open>{"error": msg}\<close>\<close>
  "error_result msg = PDict [(''error'', PStr msg)]"

definition eval_then ::
  "exn + 'a \<Rightarrow> ('a \<Rightarrow> (exn + 'b) \<times> adapter_call list) \<Rightarrow> (exn + 'b) \<times> adapter_call list" where
  \<comment> \<open>evaluate an argument expression, which may raise, before anything is called\<close>
  "eval_then m f = (case m of Inl e \<Rightarrow> (Inl e, []) | Inr x \<Rightarrow> f x)"

definition call_broker :: "broker \<Rightarrow> adapter_call \<Rightarrow> (exn + pyval) \<times> adapter_call list" where
  "call_broker b c = (invoke b c, [c])"

definition thirty_days :: int where
  "thirty_days = 30 * 86400"

fun py_is_crypto :: "pyval \<Rightarrow> exn + bool" where
  \<comment> \<open>\<^verbatim>\<open>'/' in symbol or symbol.endswith('USDT') or symbol.endswith('USD')\<close>\<close>
  "py_is_crypto (PStr s) = Inr (CHR ''/'' \<in> set s \<or> endswith s ''USDT'' \<or> endswith s ''USD'')"
| "py_is_crypto (PList xs) =
     (if PStr ''/'' \<in> set xs then Inr True else Inl (AttributeError ''object has no attribute endswith''))"
| "py_is_crypto (PDict kvs) =
     (if ''/'' \<in> fst ` set kvs then Inr True else Inl (AttributeError ''object has no attribute endswith''))"
| "py_is_crypto v = Inl (TypeError ''argument is not iterable'')"

fun closes :: "pyval list \<Rightarrow> exn + pyval list" where
  \<comment> \<open>\<^verbatim>\<open>[b['close'] for b in bars]\<close>\<close>
  "closes [] = Inr []"
| "closes (b # bs) =
     try_bind (py_getitem b ''close'') (\<lambda>x. try_bind (closes bs) (\<lambda>xs. Inr (x # xs)))"

fun split_on :: "char \<Rightarrow> string \<Rightarrow> string list" where
  \<comment> \<open>\<^verbatim>\<open>s.split(c)\<close> for a one-character separator\<close>
  "split_on c [] = [] # []"
| "split_on c (x # xs) =
     (if x = c then [] # split_on c xs
      else (case split_on c xs of [] \<Rightarrow> [x] # [] | l # ls \<Rightarrow> (x # l) # ls))"

definition numbered_lines :: "pylib \<Rightarrow> string list \<Rightarrow> string" where
  \<comment> \<open>\<^verbatim>\<open>"\n".join([f"{i+1}: {line}" for i, line in enumerate(lines)])\<close>\<close>
  "numbered_lines L lines =
     join [CHR 0x0A]
       (map (\<lambda>(i, line). str_of L (PInt (int i + 1)) @ '': '' @ line) (enumerate 0 lines))"

definition technical_indicators ::
  "env \<Rightarrow> broker \<Rightarrow> pyval \<Rightarrow> (exn + pyval) \<times> adapter_call list" where
  \<comment> \<open>the \<^verbatim>\<open>get_technical_indicators\<close> branch, with its own \<^verbatim>\<open>try\<close> around the data access\<close>
  "technical_indicators E b arguments =
     eval_then (py_getitem arguments ''symbol'') (\<lambda>symbol.
     eval_then (py_get arguments ''timeframe'' (PStr ''1d'')) (\<lambda>timeframe.
     eval_then (py_is_crypto symbol) (\<lambda>is_crypto.
       let start = wall_clock E - thirty_days;
           bars_call = GetStockBars symbol (PStr ''1Day'') start (PInt 100);
           prices = (if is_crypto
                     then try_bind (invoke b bars_call) (\<lambda>bars. try_bind (py_iter bars) closes)
                     else yahoo_prices E symbol timeframe);
           calls = (if is_crypto then [bars_call] else []);
           inner = try_bind prices (\<lambda>ps.
                     if length ps < 20
                     then Inr (error_result (''Insufficient data for '' @ str_of (lib E) symbol))
                     else indicators E symbol ps)
       in (case inner of
             Inl e \<Rightarrow> (Inr (error_result (''Technical analysis failed: '' @ exn_str e)), calls)
           | Inr v \<Rightarrow> (Inr v, calls)))))"

definition no_leverage_message :: "broker \<Rightarrow> string" where
  \<comment> \<open>the message of the capability check\<close>
  "no_leverage_message b =
     get_broker_name b @ '' doesn'' @ [CHR 0x27] @ ''t support leverage trading. ''
       @ ''Switch to Bybit or Binance for leverage trading.''"

definition max_leverage_message :: "pylib \<Rightarrow> broker \<Rightarrow> int \<Rightarrow> pyval \<Rightarrow> string" where
  \<comment> \<open>the message of the ceiling check\<close>
  "max_leverage_message L b max_lev leverage =
     get_broker_name b @ '' max leverage is '' @ str_of L (PInt max_lev)
       @ ''x, you requested '' @ str_of L leverage @ ''x''"

definition place_crypto_order_tool ::
  "env \<Rightarrow> broker \<Rightarrow> pyval \<Rightarrow> (exn + pyval) \<times> adapter_call list" where
  \<comment> \<open>the \<^verbatim>\<open>place_crypto_order\<close> branch\<close>
  "place_crypto_order_tool E b arguments =
     eval_then (py_get arguments ''leverage'' (PInt 1)) (\<lambda>leverage.
     eval_then (py_gt_int leverage 1) (\<lambda>above_one.
       if above_one \<and> \<not> supports_crypto_leverage b then
         (Inr (error_result (no_leverage_message b)), [])
       else
         (let max_lev = get_max_leverage b ''crypto'' in
          eval_then (py_gt_int leverage max_lev) (\<lambda>exceeds.
            if exceeds then
              (Inr (error_result (max_leverage_message (lib E) b max_lev leverage)), [])
            else
              eval_then (py_getitem arguments ''symbol'') (\<lambda>symbol.
              eval_then (py_getitem arguments ''side'') (\<lambda>side.
              eval_then (py_get arguments ''qty'' PNone) (\<lambda>qty.
              eval_then (py_get arguments ''notional'' PNone) (\<lambda>notional.
                call_broker b (PlaceCryptoOrder symbol side qty notional leverage)))))))))"

definition place_stock_order_tool ::
  "broker \<Rightarrow> pyval \<Rightarrow> (exn + pyval) \<times> adapter_call list" where
  "place_stock_order_tool b arguments =
     eval_then (py_getitem arguments ''symbol'') (\<lambda>symbol.
     eval_then (py_getitem arguments ''side'') (\<lambda>side.
     eval_then (py_get arguments ''qty'' PNone) (\<lambda>qty.
     eval_then (py_get arguments ''notional'' PNone) (\<lambda>notional.
     eval_then (py_get arguments ''order_type'' (PStr ''market'')) (\<lambda>order_type.
     eval_then (py_get arguments ''limit_price'' PNone) (\<lambda>limit_price.
     eval_then (py_get arguments ''stop_price'' PNone) (\<lambda>stop_price.
     eval_then (py_get arguments ''time_in_force'' (PStr ''day'')) (\<lambda>time_in_force.
       call_broker b
         (PlaceStockOrder symbol side qty notional order_type limit_price stop_price time_in_force)))))))))"

definition memory_tool :: "env \<Rightarrow> string \<Rightarrow> pyval \<Rightarrow> exn + pyval" where
  \<comment> \<open>the four \<^verbatim>\<open>*_trading_memory\<close> branches; \<open>tool_name\<close> is one of the four names\<close>
  "memory_tool E tool_name arguments =
     (if tool_name = ''read_trading_memory'' then
        (if memory_exists E then
           try_bind (memory_open E ''r'') (\<lambda>_.
           try_bind (memory_read E) (\<lambda>content.
             let lines = split_on (CHR 0x0A) content
             in Inr (PDict [(''content'', PStr (numbered_lines (lib E) lines)),
                            (''line_count'', PInt (int (length lines)))])))
         else Inr (PDict [(''content'', PStr ''''), (''line_count'', PInt 0)]))
      else if tool_name = ''write_trading_memory'' then
        try_bind (memory_open E ''w'') (\<lambda>_.
        try_bind (py_getitem arguments ''content'') (\<lambda>content.
        try_bind (case content of PStr s \<Rightarrow> memory_write E s
                  | _ \<Rightarrow> Inl (TypeError ''write() argument must be str'')) (\<lambda>_.
          Inr (PDict [(''success'', PBool True), (''message'', PStr ''Memory updated'')]))))
      else if tool_name = ''append_trading_memory'' then
        try_bind (memory_open E ''a'') (\<lambda>_.
        try_bind (py_getitem arguments ''content'') (\<lambda>content.
        try_bind (case content of PStr s \<Rightarrow> memory_write E ([CHR 0x0A] @ s)
                  | _ \<Rightarrow> Inl (TypeError ''can only concatenate str to str'')) (\<lambda>_.
          Inr (PDict [(''success'', PBool True), (''message'', PStr ''Content appended'')]))))
      else
        try_bind (memory_open E ''w'') (\<lambda>_.
        try_bind (memory_write E '''') (\<lambda>_.
          Inr (PDict [(''success'', PBool True), (''message'', PStr ''Memory cleared'')]))))"

definition execute_tool_body ::
  "env \<Rightarrow> broker \<Rightarrow> string \<Rightarrow> pyval \<Rightarrow> (exn + pyval) \<times> adapter_call list" where
  \<comment> \<open>the body of the \<^verbatim>\<open>try\<close> statement of \<^verbatim>\<open>execute_tool\<close>\<close>
  "execute_tool_body E b tool_name arguments =
     (if tool_name = ''get_account'' then call_broker b GetAccount
      else if tool_name = ''get_all_positions'' then call_broker b GetPositions
      else if tool_name = ''close_position'' then
        eval_then (py_getitem arguments ''symbol'') (\<lambda>symbol.
        eval_then (py_get arguments ''qty'' PNone) (\<lambda>qty.
        eval_then (py_get arguments ''percentage'' PNone) (\<lambda>percentage.
          call_broker b (ClosePosition symbol qty percentage))))
      else if tool_name = ''get_crypto_latest_bar'' then
        eval_then (py_getitem arguments ''symbol'') (\<lambda>symbol. call_broker b (GetCryptoPrice symbol))
      else if tool_name = ''place_crypto_order'' then place_crypto_order_tool E b arguments
      else if tool_name = ''place_stock_order'' then place_stock_order_tool b arguments
      else if tool_name = ''get_stock_quote'' then
        eval_then (py_getitem arguments ''symbol'') (\<lambda>symbol. call_broker b (GetStockQuote symbol))
      else if tool_name = ''get_stock_bars'' then
        (let start = wall_clock E - thirty_days in
         eval_then (py_getitem arguments ''symbol'') (\<lambda>symbol.
         eval_then (py_getitem arguments ''timeframe'') (\<lambda>timeframe.
         eval_then (py_get arguments ''limit'' (PInt 100)) (\<lambda>limit.
           call_broker b (GetStockBars symbol timeframe start limit)))))
      else if tool_name = ''get_technical_indicators'' then technical_indicators E b arguments
      else if tool_name = ''get_orders'' then
        eval_then (py_get arguments ''status'' (PStr ''all'')) (\<lambda>status. call_broker b (GetOrders status))
      else if tool_name = ''cancel_order'' then
        eval_then (py_getitem arguments ''order_id'') (\<lambda>order_id. call_broker b (CancelOrder order_id))
      else if tool_name = ''cancel_all_orders'' then call_broker b CancelAllOrders
      else if tool_name = ''get_market_clock'' then call_broker b GetMarketStatus
      else if tool_name \<in> {''read_trading_memory'', ''write_trading_memory'',
                            ''append_trading_memory'', ''clear_trading_memory''}
        then (memory_tool E tool_name arguments, [])
      else (Inr (error_result (''Unknown tool: '' @ tool_name)), []))"

definition not_initialized :: string where
  "not_initialized = ''Broker not initialized. Please configure broker credentials in Settings.''"

definition unsupported_feature :: "broker \<Rightarrow> string \<Rightarrow> string" where
  \<comment> \<open>the message of the \<^verbatim>\<open>except NotImplementedError\<close> handler\<close>
  "unsupported_feature b m =
     get_broker_name b @ '' doesn'' @ [CHR 0x27] @ ''t support this feature: '' @ m"

definition execute_tool :: "env \<Rightarrow> string \<Rightarrow> pyval \<Rightarrow> (exn + pyval) \<times> adapter_call list" where
  \<comment> \<open>the outcome of a call of \<^verbatim>\<open>execute_tool\<close> (a returned value, or an exception that
      leaves the function) and the adapter methods it invoked\<close>
  "execute_tool E tool_name arguments =
     (case active_broker E of
        None \<Rightarrow> (Inr (error_result not_initialized), [])
      | Some b \<Rightarrow>
          (case execute_tool_body E b tool_name arguments of
             (Inr v, calls) \<Rightarrow> (Inr v, calls)
           | (Inl (NotImplementedError m), calls) \<Rightarrow> (Inr (error_result (unsupported_feature b m)), calls)
           | (Inl e, calls) \<Rightarrow> (Inr (error_result (exn_str e)), calls)))"

definition tool_names :: "string list" where
  \<comment> \<open>the names the \<^verbatim>\<open>if\<close>/\<^verbatim>\<open>elif\<close> chain of \<^verbatim>\<open>execute_tool\<close> recognises\<close>
  "tool_names =
     [''get_account'', ''get_all_positions'', ''close_position'', ''get_crypto_latest_bar'',
      ''place_crypto_order'', ''place_stock_order'', ''get_stock_quote'', ''get_stock_bars'',
      ''get_technical_indicators'', ''get_orders'', ''cancel_order'', ''cancel_all_orders'',
      ''get_market_clock'', ''read_trading_memory'', ''write_trading_memory'',
      ''append_trading_memory'', ''clear_trading_memory'']"

section \<open>The three brokers as the executor sees them\<close>

text \<open>
  Capability answers and the methods that do not touch the venue are taken from the
  adapter classes; every other method is answered by the parameter \<open>rest\<close>.
\<close>

definition alpaca_broker :: "(adapter_call \<Rightarrow> exn + pyval) \<Rightarrow> broker" where
  "alpaca_broker rest =
     \<lparr>get_broker_name = ''Alpaca'',
      supports_crypto_leverage = False,
      get_max_leverage = (\<lambda>asset_class. if asset_class = ''stock'' then 2 else 1),
      invoke = rest\<rparr>"

fun crypto_only_invoke :: "string \<Rightarrow> (adapter_call \<Rightarrow> exn + pyval) \<Rightarrow> adapter_call \<Rightarrow> exn + pyval" where
  \<comment> \<open>the stock methods of the two crypto venues raise \<^verbatim>\<open>NotImplementedError\<close>\<close>
  "crypto_only_invoke name rest (PlaceStockOrder a b c d e f g h) =
     Inl (NotImplementedError (name @ '' does not support stock trading. Please use crypto symbols.''))"
| "crypto_only_invoke name rest (GetStockQuote s) =
     Inl (NotImplementedError (name @ '' does not support stock trading''))"
| "crypto_only_invoke name rest c = rest c"

definition one_year :: int where
  "one_year = 365 * 86400"

fun bybit_invoke :: "pylib \<Rightarrow> int \<Rightarrow> (adapter_call \<Rightarrow> exn + pyval) \<Rightarrow> adapter_call \<Rightarrow> exn + pyval" where
  \<comment> \<open>\<^verbatim>\<open>BybitBroker.get_market_status\<close> returns ISO strings; \<open>str_of\<close> of a datetime stands for
      \<^verbatim>\<open>isoformat()\<close>\<close>
  "bybit_invoke L t rest GetMarketStatus =
     Inr (PDict [(''is_open'', PBool True),
                 (''next_open'', PStr (str_of L (PDatetime t))),
                 (''next_close'', PStr (str_of L (PDatetime (t + one_year)))),
                 (''timestamp'', PStr (str_of L (PDatetime t)))])"
| "bybit_invoke L t rest c = crypto_only_invoke ''Bybit'' rest c"

fun binance_invoke :: "int \<Rightarrow> (adapter_call \<Rightarrow> exn + pyval) \<Rightarrow> adapter_call \<Rightarrow> exn + pyval" where
  \<comment> \<open>\<^verbatim>\<open>BinanceBroker.get_market_status\<close> returns the \<^verbatim>\<open>datetime\<close> objects themselves\<close>
  "binance_invoke t rest GetMarketStatus =
     Inr (PDict [(''is_open'', PBool True),
                 (''next_open'', PDatetime t),
                 (''next_close'', PDatetime (t + one_year)),
                 (''timestamp'', PDatetime t)])"
| "binance_invoke t rest c = crypto_only_invoke ''Binance'' rest c"

definition leverage_ceiling :: "int \<Rightarrow> string \<Rightarrow> int" where
  "leverage_ceiling n asset_class = (if asset_class \<in> set crypto_classes then n else 1)"

definition bybit_broker :: "pylib \<Rightarrow> int \<Rightarrow> (adapter_call \<Rightarrow> exn + pyval) \<Rightarrow> broker" where
  "bybit_broker L t rest =
     \<lparr>get_broker_name = ''Bybit'',
      supports_crypto_leverage = True,
      get_max_leverage = leverage_ceiling 100,
      invoke = bybit_invoke L t rest\<rparr>"

definition binance_broker :: "int \<Rightarrow> (adapter_call \<Rightarrow> exn + pyval) \<Rightarrow> broker" where
  "binance_broker t rest =
     \<lparr>get_broker_name = ''Binance'',
      supports_crypto_leverage = True,
      get_max_leverage = leverage_ceiling 125,
      invoke = binance_invoke t rest\<rparr>"

text \<open>Surroundings for evaluating the executor: every venue-bound method answers with a small dictionary.\<close>

definition example_rest :: "adapter_call \<Rightarrow> exn + pyval" where
  "example_rest c = Inr (PDict [(''status'', PStr ''ok'')])"

definition example_env :: "broker option \<Rightarrow> env" where
  "example_env b =
     \<lparr>lib = example_lib,
      active_broker = b,
      wall_clock = 0,
      memory_exists = False,
      memory_open = (\<lambda>mode. Inr ()),
      memory_read = Inr '''',
      memory_write = (\<lambda>s. Inr ()),
      yahoo_prices = (\<lambda>symbol interval. Inr []),
      indicators = (\<lambda>symbol prices. Inr (PDict []))\<rparr>"

definition example_order :: "int \<Rightarrow> pyval" where
  \<comment> \<open>the arguments of a leveraged market buy\<close>
  "example_order leverage =
     PDict [(''symbol'', PStr ''BTC/USD''), (''side'', PStr ''buy''), (''qty'', PInt 1), (''leverage'', PInt leverage)]"

definition example_stock_order :: pyval where
  "example_stock_order = PDict [(''symbol'', PStr ''AAPL''), (''side'', PStr ''buy''), (''qty'', PInt 1)]"

definition example_stock_call :: adapter_call where
  "example_stock_call =
     PlaceStockOrder (PStr ''AAPL'') (PStr ''buy'') (PInt 1) PNone (PStr ''market'') PNone PNone (PStr ''day'')"

section \<open>The conversation orchestrator\<close>

text \<open>
  Protocol A (Anthropic): a response has a stop reason and a list of content blocks.
  Protocol B (OpenAI-compatible, DeepSeek): a response carries one message with an
  optional text and a list of tool calls whose arguments are JSON text.
\<close>

datatype block =
    TextBlock string
  | ToolUseBlock string string pyval  \<comment> \<open>id, name, input\<close>
  | OtherBlock string  \<comment> \<open>a block of another type, without text\<close>

record claude_response =
  resp_stop_reason :: string
  resp_content :: "block list"

record tool_call =
  call_id :: string
  call_name :: string
  call_arguments :: string

record deepseek_message =
  msg_content :: "string option"
  msg_tool_calls :: "tool_call list"  \<comment> \<open>empty when the field is \<^verbatim>\<open>None\<close> or \<^verbatim>\<open>[]\<close>\<close>

datatype message =
    UserText string  \<comment> \<open>\<^verbatim>\<open>{"role": "user", "content": text}\<close>\<close>
  | AssistantBlocks "block list"  \<comment> \<open>\<^verbatim>\<open>{"role": "assistant", "content": response.content}\<close>\<close>
  | UserToolResults "(string \<times> string) list"
      \<comment> \<open>\<^verbatim>\<open>{"role": "user", "content": [...]}\<close> of \<^verbatim>\<open>tool_result\<close> blocks: the \<^verbatim>\<open>tool_use_id\<close> and the content of each\<close>
  | AssistantMessage deepseek_message  \<comment> \<open>the message object of a Protocol B response\<close>
  | ToolMessage string string  \<comment> \<open>\<^verbatim>\<open>{"role": "tool", "tool_call_id": id, "content": text}\<close>\<close>

text \<open>
  The model is a parameter: asked at a given turn with a given history it answers with a
  response, or the client raises. Nothing is assumed about how the answers depend on the
  turn or on the history.
\<close>

type_synonym claude_client = "nat \<Rightarrow> message list \<Rightarrow> exn + claude_response"
type_synonym deepseek_client = "nat \<Rightarrow> message list \<Rightarrow> exn + deepseek_message"

text \<open>
  What a run of a loop leaves behind: the returned text or the exception that left the
  function, the message list (the caller's list is extended in place), the number of
  requests made to the model, and the tool calls executed, in order, each with the id it
  was issued under.
\<close>

record run =
  outcome :: "exn + string option"
  history :: "message list"
  round_trips :: nat
  executed :: "(string \<times> string \<times> pyval) list"

definition max_turns_reached :: string where
  "max_turns_reached = ''Max turns reached.''"

definition after_turn :: "(string \<times> string \<times> pyval) list \<Rightarrow> run \<Rightarrow> run" where
  \<comment> \<open>account for one more completed turn in front of the rest of the run\<close>
  "after_turn ex r = r\<lparr>round_trips := Suc (round_trips r), executed := ex @ executed r\<rparr>"

fun final_text :: "block list \<Rightarrow> string" where
  \<comment> \<open>\<^verbatim>\<open>next((block.text for block in content if hasattr(block, "text")), "")\<close>\<close>
  "final_text [] = ''''"
| "final_text (TextBlock t # bs) = t"
| "final_text (b # bs) = final_text bs"

fun claude_tool_results ::
  "env \<Rightarrow> block list \<Rightarrow> (exn + (string \<times> string) list) \<times> (string \<times> string \<times> pyval) list" where
  \<comment> \<open>the \<^verbatim>\<open>for block in response.content\<close> loop: the \<^verbatim>\<open>tool_results\<close> list it builds, or the
      exception that ends it, and the calls executed\<close>
  "claude_tool_results E [] = (Inr [], [])"
| "claude_tool_results E (ToolUseBlock i name input # bs) =
     (case fst (execute_tool E name input) of
        Inl e \<Rightarrow> (Inl e, [(i, name, input)])
      | Inr result \<Rightarrow>
          (case json_dumps (lib E) result of
             Inl e \<Rightarrow> (Inl e, [(i, name, input)])
           | Inr text \<Rightarrow>
               (case claude_tool_results E bs of
                  (Inl e, ex) \<Rightarrow> (Inl e, (i, name, input) # ex)
                | (Inr rs, ex) \<Rightarrow> (Inr ((i, text) # rs), (i, name, input) # ex))))"
| "claude_tool_results E (b # bs) = claude_tool_results E bs"

fun claude_loop :: "env \<Rightarrow> claude_client \<Rightarrow> nat \<Rightarrow> nat \<Rightarrow> message list \<Rightarrow> run" where
  \<comment> \<open>\<^verbatim>\<open>for turn in range(max_turns)\<close> from turn \<open>turn\<close> with \<open>n\<close> iterations left\<close>
  "claude_loop E client turn 0 messages =
     \<lparr>outcome = Inr (Some max_turns_reached), history = messages, round_trips = 0, executed = []\<rparr>"
| "claude_loop E client turn (Suc n) messages =
     (case client turn messages of
        Inl e \<Rightarrow> \<lparr>outcome = Inl e, history = messages, round_trips = 1, executed = []\<rparr>
      | Inr response \<Rightarrow>
          if resp_stop_reason response = ''end_turn'' then
            \<lparr>outcome = Inr (Some (final_text (resp_content response))), history = messages,
             round_trips = 1, executed = []\<rparr>
          else if resp_stop_reason response = ''tool_use'' then
            (let messages1 = messages @ [AssistantBlocks (resp_content response)] in
             case claude_tool_results E (resp_content response) of
               (Inl e, ex) \<Rightarrow> \<lparr>outcome = Inl e, history = messages1, round_trips = 1, executed = ex\<rparr>
             | (Inr tool_results, ex) \<Rightarrow>
                 after_turn ex
                   (claude_loop E client (Suc turn) n (messages1 @ [UserToolResults tool_results])))
          else after_turn [] (claude_loop E client (Suc turn) n messages))"

definition call_claude_with_tools :: "env \<Rightarrow> claude_client \<Rightarrow> message list \<Rightarrow> int \<Rightarrow> run" where
  \<comment> \<open>\<^verbatim>\<open>range(max_turns)\<close> is empty for a bound below 1\<close>
  "call_claude_with_tools E client messages max_turns = claude_loop E client 0 (nat max_turns) messages"

fun deepseek_tool_calls ::
  "env \<Rightarrow> tool_call list \<Rightarrow> message list
     \<Rightarrow> exn option \<times> message list \<times> (string \<times> string \<times> pyval) list" where
  \<comment> \<open>the \<^verbatim>\<open>for tool_call in message.tool_calls\<close> loop: the exception that ended it, if any, the
      message list, and the calls executed\<close>
  "deepseek_tool_calls E [] messages = (None, messages, [])"
| "deepseek_tool_calls E (tc # tcs) messages =
     (case json_parse (lib E) (call_arguments tc) of
        Inl e \<Rightarrow> (Some e, messages, [])
      | Inr tool_args \<Rightarrow>
          (case fst (execute_tool E (call_name tc) tool_args) of
             Inl e \<Rightarrow> (Some e, messages, [(call_id tc, call_name tc, tool_args)])
           | Inr result \<Rightarrow>
               (case json_dumps (lib E) result of
                  Inl e \<Rightarrow> (Some e, messages, [(call_id tc, call_name tc, tool_args)])
                | Inr text \<Rightarrow>
                    (case deepseek_tool_calls E tcs (messages @ [ToolMessage (call_id tc) text]) of
                       (r, messages', ex) \<Rightarrow> (r, messages', (call_id tc, call_name tc, tool_args) # ex)))))"

fun deepseek_loop :: "env \<Rightarrow> deepseek_client \<Rightarrow> nat \<Rightarrow> nat \<Rightarrow> message list \<Rightarrow> run" where
  "deepseek_loop E client turn 0 messages =
     \<lparr>outcome = Inr (Some max_turns_reached), history = messages, round_trips = 0, executed = []\<rparr>"
| "deepseek_loop E client turn (Suc n) messages =
     (case client turn messages of
        Inl e \<Rightarrow> \<lparr>outcome = Inl e, history = messages, round_trips = 1, executed = []\<rparr>
      | Inr msg \<Rightarrow>
          if msg_tool_calls msg = [] then
            \<lparr>outcome = Inr (msg_content msg), history = messages, round_trips = 1, executed = []\<rparr>
          else
            (case deepseek_tool_calls E (msg_tool_calls msg) (messages @ [AssistantMessage msg]) of
               (Some e, messages', ex) \<Rightarrow>
                 \<lparr>outcome = Inl e, history = messages', round_trips = 1, executed = ex\<rparr>
             | (None, messages', ex) \<Rightarrow>
                 after_turn ex (deepseek_loop E client (Suc turn) n messages')))"

definition call_deepseek_with_tools :: "env \<Rightarrow> deepseek_client \<Rightarrow> message list \<Rightarrow> int \<Rightarrow> run" where
  "call_deepseek_with_tools E client messages max_turns = deepseek_loop E client 0 (nat max_turns) messages"

record ai_state =
  ai_model :: string
  anthropic_client :: "claude_client option"
  openai_client :: "deepseek_client option"

definition ai_not_initialized :: string where
  "ai_not_initialized = ''AI client not initialized. Please configure API keys in Settings.''"

definition call_ai_with_tools :: "env \<Rightarrow> ai_state \<Rightarrow> message list \<Rightarrow> int \<Rightarrow> run" where
  "call_ai_with_tools E A messages max_turns =
     (if ai_model A = ''claude'' \<and> anthropic_client A \<noteq> None
        then call_claude_with_tools E (the (anthropic_client A)) messages max_turns
      else if ai_model A = ''deepseek'' \<and> openai_client A \<noteq> None
        then call_deepseek_with_tools E (the (openai_client A)) messages max_turns
      else \<lparr>outcome = Inr (Some ai_not_initialized), history = messages, round_trips = 0, executed = []\<rparr>)"

text \<open>Models for evaluating the loops: one that asks for a tool on every turn, and one turn with two calls.\<close>

definition insistent_claude :: claude_client where
  "insistent_claude turn messages =
     Inr \<lparr>resp_stop_reason = ''tool_use'',
          resp_content = [TextBlock ''checking'', ToolUseBlock ''toolu_1'' ''get_account'' (PDict [])]\<rparr>"

definition insistent_deepseek :: deepseek_client where
  "insistent_deepseek turn messages =
     Inr \<lparr>msg_content = None,
          msg_tool_calls = [\<lparr>call_id = ''call_1'', call_name = ''get_account'', call_arguments = ''{}''\<rparr>]\<rparr>"

definition clock_then_account :: "tool_call list" where
  "clock_then_account =
     [\<lparr>call_id = ''call_1'', call_name = ''get_market_clock'', call_arguments = ''{}''\<rparr>,
      \<lparr>call_id = ''call_2'', call_name = ''get_account'', call_arguments = ''{}''\<rparr>]"

definition clock_then_account_blocks :: "block list" where
  "clock_then_account_blocks =
     [ToolUseBlock ''toolu_1'' ''get_market_clock'' (PDict []),
      ToolUseBlock ''toolu_2'' ''get_account'' (PDict [])]"

definition clock_then_account_deepseek :: deepseek_client where
  "clock_then_account_deepseek turn messages = Inr \<lparr>msg_content = None, msg_tool_calls = clock_then_account\<rparr>"

definition clock_then_account_claude :: claude_client where
  "clock_then_account_claude turn messages =
     Inr \<lparr>resp_stop_reason = ''tool_use'', resp_content = clock_then_account_blocks\<rparr>"

text \<open>
  What the two tool loops produce when nothing raises: the arguments of a Protocol B call
  as parsed, the text of a tool's result, and the tool-use blocks of a Protocol A
  response in order.
\<close>

definition parsed_arguments :: "env \<Rightarrow> tool_call \<Rightarrow> pyval" where
  "parsed_arguments E tc = (case json_parse (lib E) (call_arguments tc) of Inr a \<Rightarrow> a | Inl e \<Rightarrow> PNone)"

definition result_text :: "env \<Rightarrow> string \<Rightarrow> pyval \<Rightarrow> string" where
  "result_text E name args =
     (case fst (execute_tool E name args) of Inr v \<Rightarrow> json_text (lib E) v | Inl e \<Rightarrow> '''')"

fun tool_uses :: "block list \<Rightarrow> (string \<times> string \<times> pyval) list" where
  "tool_uses [] = []"
| "tool_uses (ToolUseBlock i name input # bs) = (i, name, input) # tool_uses bs"
| "tool_uses (b # bs) = tool_uses bs"

definition results_serializable :: "env \<Rightarrow> bool" where
  \<comment> \<open>whatever the executor returns in these surroundings, \<^verbatim>\<open>json.dumps\<close> accepts\<close>
  "results_serializable E =
     (\<forall>name args v. fst (execute_tool E name args) = Inr v \<longrightarrow> json_serializable v)"

definition always_tool_use :: "claude_client \<Rightarrow> bool" where
  \<comment> \<open>a Protocol A model that asks for tools on every turn\<close>
  "always_tool_use client =
     (\<forall>turn h. \<exists>r. client turn h = Inr r \<and> resp_stop_reason r = ''tool_use'')"

definition always_tool_calls :: "env \<Rightarrow> deepseek_client \<Rightarrow> bool" where
  \<comment> \<open>a Protocol B model that asks for tools on every turn, with arguments that parse\<close>
  "always_tool_calls E client =
     (\<forall>turn h. \<exists>m. client turn h = Inr m \<and> msg_tool_calls m \<noteq> []
        \<and> (\<forall>tc \<in> set (msg_tool_calls m). \<exists>a. json_parse (lib E) (call_arguments tc) = Inr a))"

section \<open>The autotrading loop\<close>

text \<open>
  One pass through the body of \<^verbatim>\<open>while autotrading_active:\<close> in
  \<^verbatim>\<open>multi-broker-trading-server.py\<close>. The scheduler's state is the audit log and the
  durations passed to \<^verbatim>\<open>time.sleep\<close>, in order. The clock is read once per pass.
\<close>

record scheduler =
  audit_log :: "log_entry list"
  slept :: "rat list"

definition log_line :: "env \<Rightarrow> log_entry list \<Rightarrow> string \<Rightarrow> string \<Rightarrow> log_entry list" where
  \<comment> \<open>\<^verbatim>\<open>add_autotrading_log\<close> with the timestamp \<^verbatim>\<open>datetime.now().isoformat()\<close>\<close>
  "log_line E ls msg ty = add_autotrading_log (str_of (lib E) (PDatetime (wall_clock E))) ls msg ty"

definition format_2f :: "pylib \<Rightarrow> pyval \<Rightarrow> exn + string" where
  \<comment> \<open>\<^verbatim>\<open>f"{v:.2f}"\<close>\<close>
  "format_2f L v =
     (case num_val v of
        Some r \<Rightarrow> Inr (fmt_2f L r)
      | None \<Rightarrow> (case v of
                   PStr s \<Rightarrow> Inl (ValueError ''Unknown format code f for object of type str'')
                 | _ \<Rightarrow> Inl (TypeError ''unsupported format string'')))"

fun py_len :: "pyval \<Rightarrow> exn + nat" where
  "py_len (PList xs) = Inr (length xs)"
| "py_len (PDict kvs) = Inr (length kvs)"
| "py_len (PStr s) = Inr (length s)"
| "py_len v = Inl (TypeError ''object has no len()'')"

definition py_sleep :: "pyval \<Rightarrow> exn + rat" where
  \<comment> \<open>\<^verbatim>\<open>time.sleep(v)\<close>: the duration slept, or the exception raised before sleeping\<close>
  "py_sleep v =
     (case num_val v of
        None \<Rightarrow> Inl (TypeError ''a number is required'')
      | Some r \<Rightarrow> if r < 0 then Inl (ValueError ''sleep length must be non-negative'') else Inr r)"

definition trading_context :: "env \<Rightarrow> broker \<Rightarrow> pyval \<Rightarrow> pyval \<Rightarrow> exn + string" where
  \<comment> \<open>the f-string assembled from the account and the positions\<close>
  "trading_context E b account positions =
     try_bind (try_bind (py_get account ''cash'' (PInt 0)) (format_2f (lib E))) (\<lambda>cash.
     try_bind (try_bind (py_get account ''equity'' (PInt 0)) (format_2f (lib E))) (\<lambda>equity.
     try_bind (py_len positions) (\<lambda>n.
       Inr (''Current Account:'' @ [CHR 0x0A]
            @ ''- Broker: '' @ get_broker_name b @ [CHR 0x0A]
            @ ''- Cash: $'' @ cash @ [CHR 0x0A]
            @ ''- Equity: $'' @ equity @ [CHR 0x0A]
            @ ''- Positions: '' @ str_of (lib E) (PInt (int n)) @ [CHR 0x0A, CHR 0x0A]
            @ ''Analyze market conditions and suggest trading opportunities.''))))"

definition autotrading_try ::
  "env \<Rightarrow> ai_state \<Rightarrow> pyval \<Rightarrow> log_entry list \<Rightarrow> (exn + rat) \<times> log_entry list" where
  \<comment> \<open>the body of the \<^verbatim>\<open>try\<close>: the interval slept at its end, or the exception that left it, and
      the log as it stands then\<close>
  "autotrading_try E A config ls =
     (case active_broker E of
        None \<Rightarrow> (Inl (AttributeError ''NoneType object has no attribute get_account''), ls)
      | Some b \<Rightarrow>
          (case try_bind (invoke b GetAccount) (\<lambda>account.
                try_bind (invoke b GetPositions) (\<lambda>positions.
                  trading_context E b account positions)) of
             Inl e \<Rightarrow> (Inl e, ls)
           | Inr context \<Rightarrow>
               (let ls1 = log_line E ls ''Analyzing markets...'' ''info'';
                    messages = [UserText ''You are an automated trading system.'', UserText context]
                in case outcome (call_ai_with_tools E A messages 5) of
                     Inl e \<Rightarrow> (Inl e, ls1)
                   | Inr None \<Rightarrow> (Inl (TypeError ''NoneType object is not subscriptable''), ls1)
                   | Inr (Some response) \<Rightarrow>
                       (let ls2 = log_line E ls1 (''AI Response: '' @ take 200 response @ ''...'') ''info''
                        in (try_bind (py_get config ''interval'' (PInt 60)) py_sleep, ls2)))))"

definition autotrading_iteration :: "env \<Rightarrow> ai_state \<Rightarrow> pyval \<Rightarrow> scheduler \<Rightarrow> scheduler" where
  \<comment> \<open>the \<^verbatim>\<open>try\<close> with its \<^verbatim>\<open>except Exception\<close> handler\<close>
  "autotrading_iteration E A config st =
     (case autotrading_try E A config (audit_log st) of
        (Inr interval, ls) \<Rightarrow> \<lparr>audit_log = ls, slept = slept st @ [interval]\<rparr>
      | (Inl e, ls) \<Rightarrow>
          \<lparr>audit_log = log_line E ls (''Auto-trading error: '' @ exn_str e) ''error'',
           slept = slept st @ [60]\<rparr>)"

text \<open>
  The loop. The flag is written by another thread; \<open>active i\<close> is the value read at the
  top of pass \<open>i\<close>, and \<open>world i\<close> the surroundings during that pass. The loop may run
  forever, so it is given fuel: \<open>None\<close> means that it is still running when the fuel is
  used up.
\<close>

fun autotrading_passes ::
  "(nat \<Rightarrow> bool) \<Rightarrow> (nat \<Rightarrow> env \<times> ai_state \<times> pyval) \<Rightarrow> nat \<Rightarrow> nat \<Rightarrow> scheduler \<Rightarrow> scheduler option" where
  "autotrading_passes active world 0 i st = None"
| "autotrading_passes active world (Suc fuel) i st =
     (if active i
      then (case world i of (E, A, config) \<Rightarrow>
              autotrading_passes active world fuel (Suc i) (autotrading_iteration E A config st))
      else (case world i of (E, A, config) \<Rightarrow>
              Some (st\<lparr>audit_log := log_line E (audit_log st) ''Auto-trading loop ended'' ''info''\<rparr>)))"

definition autotrading_loop ::
  "(nat \<Rightarrow> bool) \<Rightarrow> (nat \<Rightarrow> env \<times> ai_state \<times> pyval) \<Rightarrow> nat \<Rightarrow> scheduler
     \<Rightarrow> (exn + scheduler) option" where
  \<comment> \<open>the whole function: the start line is logged outside the \<^verbatim>\<open>try\<close>, so an exception there
      would leave the function\<close>
  "autotrading_loop active world fuel st =
     (case world 0 of (E, A, config) \<Rightarrow>
        (case active_broker E of
           None \<Rightarrow> Some (Inl (AttributeError ''NoneType object has no attribute get_broker_name''))
         | Some b \<Rightarrow>
             map_option Inr
               (autotrading_passes active world fuel 0
                  (st\<lparr>audit_log := log_line E (audit_log st)
                       (''Auto-trading loop started with '' @ get_broker_name b) ''info''\<rparr>))))"

text \<open>Surroundings in which the venue is unreachable, a model that answers at once, and a configuration.\<close>

definition unreachable :: "adapter_call \<Rightarrow> exn + pyval" where
  "unreachable c = Inl (OtherError ''Connection refused'')"

definition example_ai :: ai_state where
  "example_ai =
     \<lparr>ai_model = ''claude'',
      anthropic_client = Some (\<lambda>turn h. Inr \<lparr>resp_stop_reason = ''end_turn'', resp_content = [TextBlock ''Hold.'']\<rparr>),
      openai_client = None\<rparr>"

definition example_config :: pyval where
  "example_config = PDict [(''interval'', PInt 15)]"

section \<open>Properties of the audit log\<close>

lemma add_autotrading_log_unfold:
  "add_autotrading_log now logs msg ty =
     drop (length logs + 1 - 500) (logs @ [\<lparr>timestamp = now, message = msg, log_type = ty\<rparr>])"
  by (simp add: add_autotrading_log_def Let_def)

text \<open>
  Claim C8. After every append the audit log holds at most 500 entries; the result is a
  suffix of the old log followed by the new entry, so whatever is evicted is taken from
  the oldest end and the remaining entries keep their relative order; nothing is evicted
  unless the capacity would be exceeded (the length is the smaller of 500 and the old
  length plus one), and the newest entry is always the last one.
\<close>

theorem audit_log_bounded_drop_oldest:
  "length (add_autotrading_log now logs msg ty) \<le> 500
   \<and> length (add_autotrading_log now logs msg ty) = min 500 (length logs + 1)
   \<and> suffix (add_autotrading_log now logs msg ty)
        (logs @ [\<lparr>timestamp = now, message = msg, log_type = ty\<rparr>])
   \<and> last (add_autotrading_log now logs msg ty) = \<lparr>timestamp = now, message = msg, log_type = ty\<rparr>"
proof -
  let ?e = "\<lparr>timestamp = now, message = msg, log_type = ty\<rparr>"
  let ?r = "add_autotrading_log now logs msg ty"
  have r: "?r = drop (length logs + 1 - 500) (logs @ [?e])"
    by (rule add_autotrading_log_unfold)
  have len: "length ?r = min 500 (length logs + 1)"
    unfolding r by simp
  have suf: "suffix ?r (logs @ [?e])"
    unfolding r by (rule suffix_drop)
  have ne: "length logs + 1 - 500 < length (logs @ [?e])"
    by simp
  have "last ?r = last (logs @ [?e])"
    unfolding r using ne by (rule last_drop)
  then have lst: "last ?r = ?e"
    by simp
  from len suf lst show ?thesis
    by simp
qed

section \<open>Symbol normalisation is idempotent\<close>

lemma endswith_append [simp]: "endswith (x @ suf) suf"
  by (simp add: endswith_def)

lemma endswith_USDT_not_USD [simp]: "\<not> endswith (x @ ''USDT'') ''USD''"
  by (simp add: endswith_def)

lemma endswith_split: "endswith s suf \<Longrightarrow> s = drop_last (length suf) s @ suf"
  by (simp add: endswith_def drop_last_def) (metis append_take_drop_id)

lemma remove_char_append [simp]: "remove_char c (x @ y) = remove_char c x @ remove_char c y"
  by (simp add: remove_char_def)

lemma remove_char_id: "c \<notin> set s \<Longrightarrow> remove_char c s = s"
  by (auto simp add: remove_char_def filter_id_conv)

lemma set_remove_char [simp]: "set (remove_char c s) = set s - {c}"
  by (auto simp add: remove_char_def)

lemma set_drop_last: "set (drop_last k s) \<subseteq> set s"
  by (simp add: drop_last_def set_take_subset)

lemma clean_drop_last: "clean s \<Longrightarrow> clean (drop_last k s)"
  using set_drop_last [of k s] by (auto simp: clean_def)

lemma bybit_fix: "clean x \<Longrightarrow> bybit_normalize_symbol (x @ ''USDT'') a = x @ ''USDT''"
  by (simp add: bybit_normalize_symbol_def Let_def clean_def remove_char_id)

lemma bybit_shape:
  assumes a: "a \<in> set crypto_classes"
  shows "\<exists>x. clean x \<and> bybit_normalize_symbol s a = x @ ''USDT''"
proof -
  let ?s1 = "remove_char CHR ''-'' (remove_char CHR ''/'' s)"
  have c1: "clean ?s1" by (auto simp: clean_def)
  show ?thesis
  proof (cases "endswith ?s1 ''USDT''")
    case True
    from endswith_split [OF True] have e: "?s1 = drop_last 4 ?s1 @ ''USDT''"
      by (simp add: eval_nat_numeral)
    have n: "bybit_normalize_symbol s a = ?s1"
      using a True e by (simp add: bybit_normalize_symbol_def Let_def)
    have "clean (drop_last 4 ?s1)" using c1 by (rule clean_drop_last)
    with n e show ?thesis by metis
  next
    case False
    show ?thesis
    proof (cases "endswith ?s1 ''USD''")
      case True
      have "clean (drop_last 3 ?s1)" using c1 by (rule clean_drop_last)
      moreover have "bybit_normalize_symbol s a = drop_last 3 ?s1 @ ''USDT''" using a True False
        by (simp add: bybit_normalize_symbol_def Let_def)
      ultimately show ?thesis by blast
    next
      case F2: False
      have "bybit_normalize_symbol s a = ?s1 @ ''USDT''" using a False F2
        by (simp add: bybit_normalize_symbol_def Let_def)
      with c1 show ?thesis by blast
    qed
  qed
qed

lemma bybit_idem: "bybit_normalize_symbol (bybit_normalize_symbol s a) a = bybit_normalize_symbol s a"
proof (cases "a \<in> set crypto_classes")
  case True
  from bybit_shape[OF True] obtain x where "clean x" "bybit_normalize_symbol s a = x @ ''USDT''" by blast
  then show ?thesis by (simp add: bybit_fix)
next
  case False
  then show ?thesis by (simp add: bybit_normalize_symbol_def)
qed

lemma upper_char_cases:
  "upper_char c = c \<or> (65 \<le> (of_char (upper_char c) :: nat) \<and> (of_char (upper_char c) :: nat) \<le> 90)"
proof (cases "97 \<le> (of_char c :: nat) \<and> (of_char c :: nat) \<le> 122")
  case True
  then have "(of_char c :: nat) - 32 < 256" by linarith
  then have m: "((of_char c :: nat) - 32) mod 256 = (of_char c :: nat) - 32" by (rule mod_less)
  from True have "upper_char c = char_of ((of_char c :: nat) - 32)"
    by (simp add: upper_char_def Let_def)
  then have "(of_char (upper_char c) :: nat) = of_char c - 32"
    using m by simp
  with True have "65 \<le> (of_char (upper_char c) :: nat) \<and> (of_char (upper_char c) :: nat) \<le> 90"
    by linarith
  then show ?thesis ..
next
  case False
  then show ?thesis by (auto simp add: upper_char_def Let_def)
qed

lemma upper_char_fixed: "(of_char c :: nat) < 97 \<Longrightarrow> upper_char c = c"
  by (simp add: upper_char_def Let_def)

lemma upper_char_idem: "upper_char (upper_char c) = upper_char c"
  using upper_char_cases [of c] upper_char_fixed [of "upper_char c"] by auto

lemma alpaca_idem: "alpaca_normalize_symbol (alpaca_normalize_symbol s a) a = alpaca_normalize_symbol s a"
  by (simp add: alpaca_normalize_symbol_def)

lemma upper_idem: "upper (upper s) = upper s"
  by (simp add: upper_def upper_char_idem)

lemma upper_char_not: "(of_char d :: nat) < 65 \<Longrightarrow> upper_char c = d \<Longrightarrow> c = d"
  using upper_char_cases [of c] by auto

lemma upper_append: "upper (x @ y) = upper x @ upper y"
  by (simp add: upper_def)

lemma upper_USDT: "upper ''USDT'' = ''USDT''"
  by (simp add: upper_def upper_char_def)

lemma clean_upper: "clean s \<Longrightarrow> clean (upper s)"
  by (auto simp add: clean_def upper_def dest!: sym [of "CHR ''/''"] sym [of "CHR ''-''"] dest: upper_char_not [rotated])

lemma upper_drop_last: "upper (drop_last k s) = drop_last k (upper s)"
  by (simp add: upper_def drop_last_def take_map)

lemma binance_fix: "clean x \<Longrightarrow> upper x = x \<Longrightarrow> binance_normalize_symbol (x @ ''USDT'') a = x @ ''USDT''"
  by (simp add: binance_normalize_symbol_def Let_def clean_def remove_char_id upper_append upper_USDT)

lemma binance_shape:
  assumes a: "a \<in> set crypto_classes"
  shows "\<exists>x. clean x \<and> upper x = x \<and> binance_normalize_symbol s a = x @ ''USDT''"
proof -
  let ?s1 = "upper (remove_char CHR ''-'' (remove_char CHR ''/'' s))"
  have c1: "clean ?s1" by (rule clean_upper) (auto simp: clean_def)
  have u1: "upper ?s1 = ?s1" by (rule upper_idem)
  show ?thesis
  proof (cases "endswith ?s1 ''USDT''")
    case True
    from endswith_split [OF True] have e: "?s1 = drop_last 4 ?s1 @ ''USDT''"
      by (simp add: eval_nat_numeral)
    have n: "binance_normalize_symbol s a = ?s1"
      using a True by (simp add: binance_normalize_symbol_def Let_def)
    have "clean (drop_last 4 ?s1)" using c1 by (rule clean_drop_last)
    moreover have "upper (drop_last 4 ?s1) = drop_last 4 ?s1" by (simp only: upper_drop_last u1)
    ultimately show ?thesis using n e by metis
  next
    case False
    show ?thesis
    proof (cases "endswith ?s1 ''USD''")
      case True
      have "clean (drop_last 3 ?s1)" using c1 by (rule clean_drop_last)
      moreover have "upper (drop_last 3 ?s1) = drop_last 3 ?s1" by (simp only: upper_drop_last u1)
      moreover have "binance_normalize_symbol s a = drop_last 3 ?s1 @ ''USDT''" using a True False
        by (simp add: binance_normalize_symbol_def Let_def)
      ultimately show ?thesis by blast
    next
      case F2: False
      have "binance_normalize_symbol s a = ?s1 @ ''USDT''" using a False F2
        by (simp add: binance_normalize_symbol_def Let_def)
      with c1 u1 show ?thesis by blast
    qed
  qed
qed

lemma binance_idem: "binance_normalize_symbol (binance_normalize_symbol s a) a = binance_normalize_symbol s a"
proof (cases "a \<in> set crypto_classes")
  case True
  from binance_shape[OF True] obtain x where "clean x" "upper x = x" "binance_normalize_symbol s a = x @ ''USDT''" by blast
  then show ?thesis by (simp add: binance_fix)
next
  case False
  then show ?thesis by (simp add: binance_normalize_symbol_def)
qed

text \<open>
  Claim C4. For each of the three adapters, every symbol string and every asset-class
  tag, normalising an already normalised symbol changes nothing. Symbols are strings of
  8-bit characters and \<^verbatim>\<open>upper\<close> acts on the ASCII letters.
\<close>

theorem normalize_symbol_idempotent:
  "normalize_symbol b (normalize_symbol b s a) a = normalize_symbol b s a"
proof (cases b)
  case Alpaca
  then show ?thesis
    by (simp add: alpaca_idem)
next
  case Bybit
  then show ?thesis
    by (simp add: bybit_idem)
next
  case Binance
  then show ?thesis
    by (simp add: binance_idem)
qed

section \<open>Request signing\<close>

lemma map_of_dict_set_same: "map_of (dict_set kvs k v) k = Some v"
  by (induction kvs k v rule: dict_set.induct) auto

lemma map_of_dict_set_other: "k' \<noteq> k \<Longrightarrow> map_of (dict_set kvs k v) k' = map_of kvs k'"
  by (induction kvs k v rule: dict_set.induct) auto

lemma dict_set_fresh: "k \<notin> fst ` set kvs \<Longrightarrow> dict_set kvs k v = kvs @ [(k, v)]"
  by (induction kvs k v rule: dict_set.induct) auto

lemma keys_dict_set: "fst ` set (dict_set kvs k v) = insert k (fst ` set kvs)"
  by (induction kvs k v rule: dict_set.induct) auto

text \<open>
  Claim C5, as amended. Both adapters key the HMAC-SHA256 digest with the account secret
  and sign a \<^verbatim>\<open>key=value\<close> string joined by \<^verbatim>\<open>&\<close> that includes the timestamp and the
  receive window. Bybit serialises the parameters in ascending key order (every
  parameter once). Binance serialises them in the insertion order of the parameter
  dictionary, the order in which they are sent: the caller's parameters first, then the
  timestamp, then the receive window.
\<close>

theorem signatures_follow_venue_order:
  "map_of (bybit_signed_params L c ts params) ''sign'' =
     Some (PStr (hmac_sha256_hex L (api_secret c)
       (join ''&'' (map (\<lambda>kv. fst kv @ ''='' @ str_of L (snd kv))
          (sorted_items (bybit_signed_base c ts params))))))
   \<and> sorted (map fst (sorted_items (bybit_signed_base c ts params)))
   \<and> mset (sorted_items (bybit_signed_base c ts params)) = mset (bybit_signed_base c ts params)
   \<and> map_of (bybit_signed_base c ts params) ''timestamp'' = Some (PInt ts)
   \<and> map_of (bybit_signed_base c ts params) ''recv_window'' = Some (PInt 5000)
   \<and> map_of (binance_signed_params L c ts params) ''signature'' =
       Some (PStr (hmac_sha256_hex L (api_secret c)
         (join ''&'' (map (\<lambda>kv. fst kv @ ''='' @ str_of L (snd kv)) (binance_signed_base ts params)))))
   \<and> map_of (binance_signed_base ts params) ''timestamp'' = Some (PInt ts)
   \<and> map_of (binance_signed_base ts params) ''recvWindow'' = Some (PInt 5000)
   \<and> (''timestamp'' \<notin> fst ` set params \<and> ''recvWindow'' \<notin> fst ` set params \<longrightarrow>
        binance_signed_base ts params = params @ [(''timestamp'', PInt ts), (''recvWindow'', PInt 5000)])"
proof -
  have a: "map_of (bybit_signed_params L c ts params) ''sign'' =
     Some (PStr (hmac_sha256_hex L (api_secret c)
       (join ''&'' (map (\<lambda>kv. fst kv @ ''='' @ str_of L (snd kv))
          (sorted_items (bybit_signed_base c ts params))))))"
    by (simp add: bybit_signed_params_def bybit_signed_base_def Let_def map_of_dict_set_same
        bybit_generate_signature_def query_string_def)
  have b: "sorted (map fst (sorted_items (bybit_signed_base c ts params)))"
    by (simp add: sorted_items_def)
  have c: "mset (sorted_items (bybit_signed_base c ts params)) = mset (bybit_signed_base c ts params)"
    by (simp add: sorted_items_def)
  have d: "map_of (bybit_signed_base c ts params) ''timestamp'' = Some (PInt ts)"
    by (simp add: bybit_signed_base_def map_of_dict_set_same map_of_dict_set_other)
  have e: "map_of (bybit_signed_base c ts params) ''recv_window'' = Some (PInt 5000)"
    by (simp add: bybit_signed_base_def map_of_dict_set_same recv_window_def)
  have f: "map_of (binance_signed_params L c ts params) ''signature'' =
       Some (PStr (hmac_sha256_hex L (api_secret c)
         (join ''&'' (map (\<lambda>kv. fst kv @ ''='' @ str_of L (snd kv)) (binance_signed_base ts params)))))"
    by (simp add: binance_signed_params_def binance_signed_base_def Let_def map_of_dict_set_same
        binance_generate_signature_def query_string_def)
  have g: "map_of (binance_signed_base ts params) ''timestamp'' = Some (PInt ts)"
    by (simp add: binance_signed_base_def map_of_dict_set_same map_of_dict_set_other)
  have h: "map_of (binance_signed_base ts params) ''recvWindow'' = Some (PInt 5000)"
    by (simp add: binance_signed_base_def map_of_dict_set_same recv_window_def)
  have i: "''timestamp'' \<notin> fst ` set params \<and> ''recvWindow'' \<notin> fst ` set params \<longrightarrow>
        binance_signed_base ts params = params @ [(''timestamp'', PInt ts), (''recvWindow'', PInt 5000)]"
    by (simp add: binance_signed_base_def dict_set_fresh keys_dict_set recv_window_def)
  from a b c d e f g h i show ?thesis by blast
qed

lemma str_int_1: "str_int 1 = ''1''" by (simp add: str_int_def digit_char_def)
lemma str_int_5000: "str_int 5000 = ''5000''" by (simp add: str_int_def digit_char_def)

text \<open>
  Claim C5 as stated fails for Binance: for an order with the parameters \<^verbatim>\<open>symbol\<close> and
  \<^verbatim>\<open>side\<close> the signed string starts with \<^verbatim>\<open>symbol=\<close>, whereas the key-sorted
  serialisation starts with \<^verbatim>\<open>recvWindow=\<close>.
\<close>

theorem binance_signature_not_sorted_counterexample:
  "map_of (binance_signed_params example_lib example_credentials 1 example_order_params) ''signature''
     = Some (PStr ''secret|symbol=BTCUSDT&side=SELL&timestamp=1&recvWindow=5000'')
   \<and> hmac_sha256_hex example_lib (api_secret example_credentials)
        (query_string example_lib (sorted_items (binance_signed_base 1 example_order_params)))
     = ''secret|recvWindow=5000&side=SELL&symbol=BTCUSDT&timestamp=1''
   \<and> map_of (binance_signed_params example_lib example_credentials 1 example_order_params) ''signature''
     \<noteq> Some (PStr (hmac_sha256_hex example_lib (api_secret example_credentials)
        (query_string example_lib (sorted_items (binance_signed_base 1 example_order_params)))))"
  by (simp add: binance_signed_params_def binance_signed_base_def example_lib_def example_credentials_def
      example_order_params_def recv_window_def query_string_def binance_generate_signature_def
      sorted_items_def str_int_1 str_int_5000 Let_def)

theorem signatures_follow_venue_order_witness:
  "binance_signed_base 1 example_order_params
     = [(''symbol'', PStr ''BTCUSDT''), (''side'', PStr ''SELL''), (''timestamp'', PInt 1), (''recvWindow'', PInt 5000)]"
  using signatures_follow_venue_order [of example_lib example_credentials 1 example_order_params]
  by (simp add: example_order_params_def)

section \<open>Closing a position\<close>

lemma snd_bybit_make_request:
  "snd (bybit_make_request L c V method endpoint params signed sent) =
     sent @ [\<lparr>http_method = (if method = ''GET'' then ''GET'' else ''POST''),
              http_url = bybit_base_url c @ endpoint,
              http_params = (if signed then bybit_signed_params L c (clock_ms V (length sent)) params else params),
              http_headers = [(''Content-Type'', ''application/json'')]\<rparr>]"
  by (simp add: bybit_make_request_def Let_def)

lemma snd_binance_make_request_post:
  "method = ''GET'' \<or> method = ''POST'' \<or> method = ''DELETE'' \<Longrightarrow>
   snd (binance_make_request L c V method endpoint params signed use_spot sent) =
     sent @ [\<lparr>http_method = method,
              http_url = binance_base_url c use_spot @ endpoint,
              http_params = (if signed then binance_signed_params L c (clock_ms V (length sent)) params else params),
              http_headers = [(''X-MBX-APIKEY'', api_key c)]\<rparr>]"
  by (simp add: binance_make_request_def Let_def)

lemma snd_bybit_get_positions:
  "snd (bybit_get_positions L c V sent) =
     sent @ [\<lparr>http_method = ''GET'',
              http_url = bybit_base_url c @ ''/v2/private/position/list'',
              http_params = bybit_signed_params L c (clock_ms V (length sent)) [],
              http_headers = [(''Content-Type'', ''application/json'')]\<rparr>]"
  using snd_bybit_make_request [of L c V "''GET''" "''/v2/private/position/list''" "[]" True sent]
  by (simp add: bybit_get_positions_def Let_def split_beta)

lemma snd_binance_get_positions:
  "snd (binance_get_positions L c V sent) =
     sent @ [\<lparr>http_method = ''GET'',
              http_url = binance_base_url c False @ ''/fapi/v2/positionRisk'',
              http_params = binance_signed_params L c (clock_ms V (length sent)) [],
              http_headers = [(''X-MBX-APIKEY'', api_key c)]\<rparr>]"
  using snd_binance_make_request_post [of "''GET''" L c V "''/fapi/v2/positionRisk''" "[]" True False sent]
  by (simp add: binance_get_positions_def Let_def split_beta)

lemma map_of_bybit_signed_params:
  "k \<notin> {''api_key'', ''timestamp'', ''recv_window'', ''sign''} \<Longrightarrow>
   map_of (bybit_signed_params L c ts params) k = map_of params k"
  by (simp add: bybit_signed_params_def Let_def map_of_dict_set_other)

lemma map_of_binance_signed_params:
  "k \<notin> {''timestamp'', ''recvWindow'', ''signature''} \<Longrightarrow>
   map_of (binance_signed_params L c ts params) k = map_of params k"
  by (simp add: binance_signed_params_def Let_def map_of_dict_set_other)

lemma bybit_close_position_sends:
  assumes gp: "bybit_get_positions L c V sent = (Inr positions, sent1)"
    and fnd: "find (\<lambda>p. pos_symbol p = PStr symbol) positions = Some p"
  shows "\<exists>req. snd (bybit_close_position L c V symbol qty percentage sent) = sent1 @ [req]
           \<and> http_method req = ''POST''
           \<and> http_url req = bybit_base_url c @ ''/v2/private/order/create''
           \<and> map_of (http_params req) ''symbol'' = Some (PStr symbol)
           \<and> map_of (http_params req) ''reduce_only'' = Some (PBool True)
           \<and> map_of (http_params req) ''qty'' = Some (PFloat (close_quantity \<bar>pos_qty p\<bar> qty percentage))"
  using gp fnd
  by (simp add: bybit_close_position_def Let_def split_beta snd_bybit_make_request
      map_of_bybit_signed_params)

lemma binance_close_position_sends:
  assumes gp: "binance_get_positions L c V sent = (Inr positions, sent1)"
    and fnd: "find (\<lambda>p. pos_symbol p = PStr symbol) positions = Some p"
  shows "\<exists>req. snd (binance_close_position L c V symbol qty percentage sent) = sent1 @ [req]
           \<and> http_method req = ''POST''
           \<and> http_url req = binance_base_url c False @ ''/fapi/v1/order''
           \<and> map_of (http_params req) ''symbol'' = Some (PStr symbol)
           \<and> map_of (http_params req) ''reduceOnly'' = Some (PStr ''true'')
           \<and> map_of (http_params req) ''quantity'' = Some (PFloat (close_quantity \<bar>pos_qty p\<bar> qty percentage))"
  using gp fnd
  by (simp add: binance_close_position_def Let_def split_beta snd_binance_make_request_post
      map_of_binance_signed_params)

lemma bybit_close_position_starts_with_fetch:
  "prefix (snd (bybit_get_positions L c V sent)) (snd (bybit_close_position L c V symbol qty percentage sent))"
  by (cases "bybit_get_positions L c V sent")
    (auto simp add: bybit_close_position_def Let_def split_beta snd_bybit_make_request
      split: sum.splits option.splits)

lemma binance_close_position_starts_with_fetch:
  "prefix (snd (binance_get_positions L c V sent)) (snd (binance_close_position L c V symbol qty percentage sent))"
  by (cases "binance_get_positions L c V sent")
    (auto simp add: binance_close_position_def Let_def split_beta snd_binance_make_request_post
      split: sum.splits option.splits)


lemma example_bybit_positions:
  "fst (bybit_get_positions example_lib example_credentials example_venue []) = Inr [example_bybit_position]"
  by (simp add: example_venue_def example_credentials_def example_lib_def Let_def try_bind_def
      split_beta bybit_close_position_def bybit_get_positions_def bybit_make_request_def
      bybit_base_url_def bybit_check_response_def bybit_position_row_def bybit_signed_params_def
      bybit_generate_signature_def py_eq_zero_def dict_get_def close_quantity_def opt_truthy_def
      query_string_def sorted_items_def recv_window_def example_bybit_position_def)

lemma example_binance_positions:
  "fst (binance_get_positions example_lib example_credentials example_venue []) = Inr [example_binance_position]"
  by (simp add: example_venue_def example_credentials_def example_lib_def Let_def try_bind_def
      split_beta binance_close_position_def binance_get_positions_def binance_make_request_def
      binance_base_url_def binance_position_row_def binance_signed_params_def
      binance_generate_signature_def py_eq_zero_def dict_get_def close_quantity_def
      opt_truthy_def query_string_def sorted_items_def recv_window_def
      example_binance_position_def)

text \<open>
  Claim C3 as stated fails: on the example venue, \<^verbatim>\<open>close_position\<close> of the Bybit adapter
  called with both a quantity and a percentage, and called with neither, raises nothing.
  It sends two requests (the position list, then the order) and returns the order: half
  the position in the first case, the whole position in the second.
\<close>

theorem close_position_accepts_both_and_neither_counterexample:
  "fst (bybit_close_position example_lib example_credentials example_venue ''BTCUSDT'' (Some 1) (Some 50) [])
     = Inr (PDict [(''order_id'', PStr ''42''), (''symbol'', PStr ''BTCUSDT''), (''status'', PStr ''submitted''),
                   (''side'', PStr ''Sell''), (''qty'', PFloat (7 / 4))])
   \<and> map http_url (snd (bybit_close_position example_lib example_credentials example_venue ''BTCUSDT'' (Some 1) (Some 50) []))
     = [''https://api-testnet.bybit.com/v2/private/position/list'',
        ''https://api-testnet.bybit.com/v2/private/order/create'']
   \<and> fst (bybit_close_position example_lib example_credentials example_venue ''BTCUSDT'' None None [])
     = Inr (PDict [(''order_id'', PStr ''42''), (''symbol'', PStr ''BTCUSDT''), (''status'', PStr ''submitted''),
                   (''side'', PStr ''Sell''), (''qty'', PFloat (7 / 2))])
   \<and> map http_url (snd (bybit_close_position example_lib example_credentials example_venue ''BTCUSDT'' None None []))
     = [''https://api-testnet.bybit.com/v2/private/position/list'',
        ''https://api-testnet.bybit.com/v2/private/order/create'']"
  by (simp add: example_venue_def example_credentials_def example_lib_def Let_def try_bind_def
      split_beta bybit_close_position_def bybit_get_positions_def bybit_make_request_def
      bybit_base_url_def bybit_check_response_def bybit_position_row_def bybit_signed_params_def
      bybit_generate_signature_def py_eq_zero_def dict_get_def close_quantity_def opt_truthy_def
      query_string_def sorted_items_def recv_window_def)

text \<open>
  Claim C10 as stated fails at zero: an explicit quantity of 0 (Bybit) and an explicit
  percentage of 0 (Binance) both submit an order for the whole position of 7/2, not for
  \<open>min 0 (7/2)\<close> or for 0 percent of it.
\<close>

theorem close_quantity_zero_counterexample:
  "fst (bybit_close_position example_lib example_credentials example_venue ''BTCUSDT'' (Some 0) None [])
     = Inr (PDict [(''order_id'', PStr ''42''), (''symbol'', PStr ''BTCUSDT''), (''status'', PStr ''submitted''),
                   (''side'', PStr ''Sell''), (''qty'', PFloat (7 / 2))])
   \<and> map_of (http_params (last (snd
         (bybit_close_position example_lib example_credentials example_venue ''BTCUSDT'' (Some 0) None []))))
       ''qty'' = Some (PFloat (7 / 2))
   \<and> min (0 :: rat) \<bar>7 / 2\<bar> \<noteq> 7 / 2
   \<and> fst (binance_close_position example_lib example_credentials example_venue ''BTCUSDT'' None (Some 0) [])
     = Inr (PDict [(''order_id'', PStr ''42''), (''symbol'', PStr ''BTCUSDT''), (''status'', PStr ''NEW''),
                   (''side'', PStr ''SELL''), (''qty'', PFloat (7 / 2))])
   \<and> map_of (http_params (last (snd
         (binance_close_position example_lib example_credentials example_venue ''BTCUSDT'' None (Some 0) []))))
       ''quantity'' = Some (PFloat (7 / 2))
   \<and> \<bar>7 / 2\<bar> * (0 :: rat) / 100 \<noteq> 7 / 2"
  by (simp add: example_venue_def example_credentials_def example_lib_def Let_def try_bind_def
      split_beta bybit_close_position_def bybit_get_positions_def bybit_make_request_def
      bybit_base_url_def bybit_check_response_def bybit_position_row_def bybit_signed_params_def
      bybit_generate_signature_def binance_close_position_def binance_get_positions_def
      binance_make_request_def binance_base_url_def binance_position_row_def
      binance_signed_params_def binance_generate_signature_def py_eq_zero_def dict_get_def
      close_quantity_def opt_truthy_def query_string_def sorted_items_def recv_window_def
      str_int_def digit_char_def)

lemma close_quantity_neither: "close_quantity cur None None = cur"
  by (simp add: close_quantity_def opt_truthy_def)

lemma close_quantity_percentage: "r \<noteq> 0 \<Longrightarrow> close_quantity cur qty (Some r) = cur * (r / 100)"
  by (simp add: close_quantity_def opt_truthy_def)

lemma close_quantity_qty_only: "q \<noteq> 0 \<Longrightarrow> close_quantity cur (Some q) None = min q cur"
  by (simp add: close_quantity_def opt_truthy_def)

lemma snd_alpaca_close_position:
  "snd (alpaca_close_position L sdk symbol qty percentage calls) =
     calls @ [SdkClosePosition symbol
       (if opt_truthy percentage then Some (str_of L (PFloat (the percentage)) @ ''%'')
        else if opt_truthy qty then Some (str_of L (PFloat (the qty)))
        else None)]"
  by (simp add: alpaca_close_position_def Let_def)

text \<open>
  Claim C3, as amended. \<^verbatim>\<open>close_position\<close> validates nothing locally. On Bybit and
  Binance the first thing it does, whatever the quantity and the percentage are, is to
  send the signed position-list request to the venue. When the venue reports a position
  for the symbol, a call with neither argument submits an order for the whole position,
  and a call with both (percentage nonzero) submits the percentage of the position and
  ignores the quantity. On Alpaca the call goes to the SDK with no request object when
  neither is given, and with the percentage when both are.
\<close>

theorem close_position_has_no_validation:
  "(\<exists>req rest. snd (bybit_close_position L c V symbol qty percentage sent) = sent @ req # rest
        \<and> http_url req = bybit_base_url c @ ''/v2/private/position/list'')
   \<and> (\<exists>req rest. snd (binance_close_position L c V symbol qty percentage sent) = sent @ req # rest
        \<and> http_url req = binance_base_url c False @ ''/fapi/v2/positionRisk'')
   \<and> (bybit_get_positions L c V sent = (Inr positions, after)
        \<and> find (\<lambda>p. pos_symbol p = PStr symbol) positions = Some p \<longrightarrow>
          (\<exists>req. snd (bybit_close_position L c V symbol None None sent) = after @ [req]
             \<and> map_of (http_params req) ''qty'' = Some (PFloat \<bar>pos_qty p\<bar>))
        \<and> (r \<noteq> 0 \<longrightarrow>
             (\<exists>req. snd (bybit_close_position L c V symbol (Some q) (Some r) sent) = after @ [req]
                \<and> map_of (http_params req) ''qty'' = Some (PFloat (\<bar>pos_qty p\<bar> * (r / 100))))))
   \<and> (binance_get_positions L c V sent = (Inr positions', after')
        \<and> find (\<lambda>p. pos_symbol p = PStr symbol) positions' = Some p' \<longrightarrow>
          (\<exists>req. snd (binance_close_position L c V symbol None None sent) = after' @ [req]
             \<and> map_of (http_params req) ''quantity'' = Some (PFloat \<bar>pos_qty p'\<bar>))
        \<and> (r \<noteq> 0 \<longrightarrow>
             (\<exists>req. snd (binance_close_position L c V symbol (Some q) (Some r) sent) = after' @ [req]
                \<and> map_of (http_params req) ''quantity'' = Some (PFloat (\<bar>pos_qty p'\<bar> * (r / 100))))))
   \<and> snd (alpaca_close_position L sdk symbol None None calls) = calls @ [SdkClosePosition symbol None]
   \<and> (r \<noteq> 0 \<longrightarrow>
        snd (alpaca_close_position L sdk symbol (Some q) (Some r) calls)
          = calls @ [SdkClosePosition symbol (Some (str_of L (PFloat r) @ ''%''))])"
proof -
  have by_first: "\<exists>req rest. snd (bybit_close_position L c V symbol qty percentage sent) = sent @ req # rest
        \<and> http_url req = bybit_base_url c @ ''/v2/private/position/list''"
    using bybit_close_position_starts_with_fetch [of L c V sent symbol qty percentage]
    by (auto simp add: snd_bybit_get_positions prefix_def)
  have bi_first: "\<exists>req rest. snd (binance_close_position L c V symbol qty percentage sent) = sent @ req # rest
        \<and> http_url req = binance_base_url c False @ ''/fapi/v2/positionRisk''"
    using binance_close_position_starts_with_fetch [of L c V sent symbol qty percentage]
    by (auto simp add: snd_binance_get_positions prefix_def)
  have by_order: "(\<exists>req. snd (bybit_close_position L c V symbol None None sent) = after @ [req]
             \<and> map_of (http_params req) ''qty'' = Some (PFloat \<bar>pos_qty p\<bar>))
        \<and> (r \<noteq> 0 \<longrightarrow>
             (\<exists>req. snd (bybit_close_position L c V symbol (Some q) (Some r) sent) = after @ [req]
                \<and> map_of (http_params req) ''qty'' = Some (PFloat (\<bar>pos_qty p\<bar> * (r / 100)))))"
    if "bybit_get_positions L c V sent = (Inr positions, after)"
      and "find (\<lambda>p. pos_symbol p = PStr symbol) positions = Some p"
    using bybit_close_position_sends [OF that, of None None]
      bybit_close_position_sends [OF that, of "Some q" "Some r"]
    by (auto simp add: close_quantity_neither close_quantity_percentage)
  have bi_order: "(\<exists>req. snd (binance_close_position L c V symbol None None sent) = after' @ [req]
             \<and> map_of (http_params req) ''quantity'' = Some (PFloat \<bar>pos_qty p'\<bar>))
        \<and> (r \<noteq> 0 \<longrightarrow>
             (\<exists>req. snd (binance_close_position L c V symbol (Some q) (Some r) sent) = after' @ [req]
                \<and> map_of (http_params req) ''quantity'' = Some (PFloat (\<bar>pos_qty p'\<bar> * (r / 100)))))"
    if "binance_get_positions L c V sent = (Inr positions', after')"
      and "find (\<lambda>p. pos_symbol p = PStr symbol) positions' = Some p'"
    using binance_close_position_sends [OF that, of None None]
      binance_close_position_sends [OF that, of "Some q" "Some r"]
    by (auto simp add: close_quantity_neither close_quantity_percentage)
  have al: "snd (alpaca_close_position L sdk symbol None None calls) = calls @ [SdkClosePosition symbol None]"
    by (simp add: snd_alpaca_close_position opt_truthy_def)
  have al2: "r \<noteq> 0 \<longrightarrow>
        snd (alpaca_close_position L sdk symbol (Some q) (Some r) calls)
          = calls @ [SdkClosePosition symbol (Some (str_of L (PFloat r) @ ''%''))]"
    by (simp add: snd_alpaca_close_position opt_truthy_def)
  from by_first bi_first by_order bi_order al al2 show ?thesis
    by blast
qed

text \<open>
  Claim C10, as amended. On Bybit and Binance, when the venue reports a position for the
  symbol, \<^verbatim>\<open>close_position\<close> called with only a nonzero quantity submits a reduce-only
  order for \<open>min qty |position qty|\<close>, which never exceeds the open position; called with
  a nonzero percentage it submits a reduce-only order for
  \<open>|position qty| * percentage / 100\<close>.
\<close>

theorem close_quantity_clamped:
  "(bybit_get_positions L c V sent = (Inr positions, after)
      \<and> find (\<lambda>p. pos_symbol p = PStr symbol) positions = Some p \<longrightarrow>
        (q \<noteq> 0 \<longrightarrow>
           (\<exists>req. snd (bybit_close_position L c V symbol (Some q) None sent) = after @ [req]
              \<and> map_of (http_params req) ''reduce_only'' = Some (PBool True)
              \<and> map_of (http_params req) ''qty'' = Some (PFloat (min q \<bar>pos_qty p\<bar>))
              \<and> min q \<bar>pos_qty p\<bar> \<le> \<bar>pos_qty p\<bar>))
      \<and> (r \<noteq> 0 \<longrightarrow>
           (\<exists>req. snd (bybit_close_position L c V symbol qty (Some r) sent) = after @ [req]
              \<and> map_of (http_params req) ''reduce_only'' = Some (PBool True)
              \<and> map_of (http_params req) ''qty'' = Some (PFloat (\<bar>pos_qty p\<bar> * r / 100)))))
   \<and> (binance_get_positions L c V sent = (Inr positions', after')
      \<and> find (\<lambda>p. pos_symbol p = PStr symbol) positions' = Some p' \<longrightarrow>
        (q \<noteq> 0 \<longrightarrow>
           (\<exists>req. snd (binance_close_position L c V symbol (Some q) None sent) = after' @ [req]
              \<and> map_of (http_params req) ''reduceOnly'' = Some (PStr ''true'')
              \<and> map_of (http_params req) ''quantity'' = Some (PFloat (min q \<bar>pos_qty p'\<bar>))
              \<and> min q \<bar>pos_qty p'\<bar> \<le> \<bar>pos_qty p'\<bar>))
      \<and> (r \<noteq> 0 \<longrightarrow>
           (\<exists>req. snd (binance_close_position L c V symbol qty (Some r) sent) = after' @ [req]
              \<and> map_of (http_params req) ''reduceOnly'' = Some (PStr ''true'')
              \<and> map_of (http_params req) ''quantity'' = Some (PFloat (\<bar>pos_qty p'\<bar> * r / 100)))))"
proof -
  have by_order: "(q \<noteq> 0 \<longrightarrow>
           (\<exists>req. snd (bybit_close_position L c V symbol (Some q) None sent) = after @ [req]
              \<and> map_of (http_params req) ''reduce_only'' = Some (PBool True)
              \<and> map_of (http_params req) ''qty'' = Some (PFloat (min q \<bar>pos_qty p\<bar>))
              \<and> min q \<bar>pos_qty p\<bar> \<le> \<bar>pos_qty p\<bar>))
      \<and> (r \<noteq> 0 \<longrightarrow>
           (\<exists>req. snd (bybit_close_position L c V symbol qty (Some r) sent) = after @ [req]
              \<and> map_of (http_params req) ''reduce_only'' = Some (PBool True)
              \<and> map_of (http_params req) ''qty'' = Some (PFloat (\<bar>pos_qty p\<bar> * r / 100))))"
    if "bybit_get_positions L c V sent = (Inr positions, after)"
      and "find (\<lambda>p. pos_symbol p = PStr symbol) positions = Some p"
    using bybit_close_position_sends [OF that, of "Some q" None]
      bybit_close_position_sends [OF that, of qty "Some r"]
    by (auto simp add: close_quantity_qty_only close_quantity_percentage)
  have bi_order: "(q \<noteq> 0 \<longrightarrow>
           (\<exists>req. snd (binance_close_position L c V symbol (Some q) None sent) = after' @ [req]
              \<and> map_of (http_params req) ''reduceOnly'' = Some (PStr ''true'')
              \<and> map_of (http_params req) ''quantity'' = Some (PFloat (min q \<bar>pos_qty p'\<bar>))
              \<and> min q \<bar>pos_qty p'\<bar> \<le> \<bar>pos_qty p'\<bar>))
      \<and> (r \<noteq> 0 \<longrightarrow>
           (\<exists>req. snd (binance_close_position L c V symbol qty (Some r) sent) = after' @ [req]
              \<and> map_of (http_params req) ''reduceOnly'' = Some (PStr ''true'')
              \<and> map_of (http_params req) ''quantity'' = Some (PFloat (\<bar>pos_qty p'\<bar> * r / 100))))"
    if "binance_get_positions L c V sent = (Inr positions', after')"
      and "find (\<lambda>p. pos_symbol p = PStr symbol) positions' = Some p'"
    using binance_close_position_sends [OF that, of "Some q" None]
      binance_close_position_sends [OF that, of qty "Some r"]
    by (auto simp add: close_quantity_qty_only close_quantity_percentage)
  from by_order bi_order show ?thesis
    by blast
qed


lemma example_bybit_fetch:
  "bybit_get_positions example_lib example_credentials example_venue []
     = (Inr [example_bybit_position], snd (bybit_get_positions example_lib example_credentials example_venue []))"
  using example_bybit_positions by (simp add: prod_eq_iff)

lemma example_binance_fetch:
  "binance_get_positions example_lib example_credentials example_venue []
     = (Inr [example_binance_position], snd (binance_get_positions example_lib example_credentials example_venue []))"
  using example_binance_positions by (simp add: prod_eq_iff)

lemma example_bybit_find:
  "find (\<lambda>p. pos_symbol p = PStr ''BTCUSDT'') [example_bybit_position] = Some example_bybit_position"
  by (simp add: example_bybit_position_def)

lemma example_binance_find:
  "find (\<lambda>p. pos_symbol p = PStr ''BTCUSDT'') [example_binance_position] = Some example_binance_position"
  by (simp add: example_binance_position_def)

theorem close_position_has_no_validation_witness:
  "fst (bybit_get_positions example_lib example_credentials example_venue []) = Inr [example_bybit_position]
   \<and> find (\<lambda>p. pos_symbol p = PStr ''BTCUSDT'') [example_bybit_position] = Some example_bybit_position
   \<and> (50 :: rat) \<noteq> 0
   \<and> (\<exists>req. snd (bybit_close_position example_lib example_credentials example_venue ''BTCUSDT'' None None [])
          = snd (bybit_get_positions example_lib example_credentials example_venue []) @ [req]
        \<and> map_of (http_params req) ''qty'' = Some (PFloat (7 / 2)))
   \<and> (\<exists>req. snd (bybit_close_position example_lib example_credentials example_venue ''BTCUSDT'' (Some 1) (Some 50) [])
          = snd (bybit_get_positions example_lib example_credentials example_venue []) @ [req]
        \<and> map_of (http_params req) ''qty'' = Some (PFloat (7 / 4)))
   \<and> fst (binance_get_positions example_lib example_credentials example_venue []) = Inr [example_binance_position]
   \<and> find (\<lambda>p. pos_symbol p = PStr ''BTCUSDT'') [example_binance_position] = Some example_binance_position
   \<and> (\<exists>req. snd (binance_close_position example_lib example_credentials example_venue ''BTCUSDT'' None None [])
          = snd (binance_get_positions example_lib example_credentials example_venue []) @ [req]
        \<and> map_of (http_params req) ''quantity'' = Some (PFloat (7 / 2)))
   \<and> (\<exists>req. snd (binance_close_position example_lib example_credentials example_venue ''BTCUSDT'' (Some 1) (Some 50) [])
          = snd (binance_get_positions example_lib example_credentials example_venue []) @ [req]
        \<and> map_of (http_params req) ''quantity'' = Some (PFloat (7 / 4)))"
proof -
  have q: "\<bar>pos_qty example_bybit_position\<bar> = 7 / 2" "\<bar>pos_qty example_binance_position\<bar> = 7 / 2"
    by (simp_all add: example_bybit_position_def example_binance_position_def)
  have nz: "(50 :: rat) \<noteq> 0"
    by simp
  note main = close_position_has_no_validation
    [where L = example_lib and c = example_credentials and V = example_venue and symbol = "''BTCUSDT''"
       and sent = "[]" and positions = "[example_bybit_position]" and p = example_bybit_position
       and after = "snd (bybit_get_positions example_lib example_credentials example_venue [])"
       and positions' = "[example_binance_position]" and p' = example_binance_position
       and after' = "snd (binance_get_positions example_lib example_credentials example_venue [])"
       and q = 1 and r = 50]
  from main example_bybit_fetch example_bybit_find example_binance_fetch example_binance_find nz
  show ?thesis
    by (simp add: q example_bybit_positions example_binance_positions)
qed

theorem close_quantity_clamped_witness:
  "fst (bybit_get_positions example_lib example_credentials example_venue []) = Inr [example_bybit_position]
   \<and> find (\<lambda>p. pos_symbol p = PStr ''BTCUSDT'') [example_bybit_position] = Some example_bybit_position
   \<and> (1 :: rat) \<noteq> 0 \<and> (50 :: rat) \<noteq> 0
   \<and> (\<exists>req. snd (bybit_close_position example_lib example_credentials example_venue ''BTCUSDT'' (Some 1) None [])
          = snd (bybit_get_positions example_lib example_credentials example_venue []) @ [req]
        \<and> map_of (http_params req) ''reduce_only'' = Some (PBool True)
        \<and> map_of (http_params req) ''qty'' = Some (PFloat 1))
   \<and> (\<exists>req. snd (bybit_close_position example_lib example_credentials example_venue ''BTCUSDT'' None (Some 50) [])
          = snd (bybit_get_positions example_lib example_credentials example_venue []) @ [req]
        \<and> map_of (http_params req) ''reduce_only'' = Some (PBool True)
        \<and> map_of (http_params req) ''qty'' = Some (PFloat (7 / 4)))
   \<and> fst (binance_get_positions example_lib example_credentials example_venue []) = Inr [example_binance_position]
   \<and> find (\<lambda>p. pos_symbol p = PStr ''BTCUSDT'') [example_binance_position] = Some example_binance_position
   \<and> (\<exists>req. snd (binance_close_position example_lib example_credentials example_venue ''BTCUSDT'' (Some 1) None [])
          = snd (binance_get_positions example_lib example_credentials example_venue []) @ [req]
        \<and> map_of (http_params req) ''reduceOnly'' = Some (PStr ''true'')
        \<and> map_of (http_params req) ''quantity'' = Some (PFloat 1))
   \<and> (\<exists>req. snd (binance_close_position example_lib example_credentials example_venue ''BTCUSDT'' None (Some 50) [])
          = snd (binance_get_positions example_lib example_credentials example_venue []) @ [req]
        \<and> map_of (http_params req) ''reduceOnly'' = Some (PStr ''true'')
        \<and> map_of (http_params req) ''quantity'' = Some (PFloat (7 / 4)))"
proof -
  have q: "\<bar>pos_qty example_bybit_position\<bar> = 7 / 2" "\<bar>pos_qty example_binance_position\<bar> = 7 / 2"
    by (simp_all add: example_bybit_position_def example_binance_position_def)
  have nz: "(1 :: rat) \<noteq> 0" "(50 :: rat) \<noteq> 0"
    by simp_all
  note main = close_quantity_clamped
    [where L = example_lib and c = example_credentials and V = example_venue and symbol = "''BTCUSDT''"
       and sent = "[]" and positions = "[example_bybit_position]" and p = example_bybit_position
       and after = "snd (bybit_get_positions example_lib example_credentials example_venue [])"
       and positions' = "[example_binance_position]" and p' = example_binance_position
       and after' = "snd (binance_get_positions example_lib example_credentials example_venue [])"
       and q = 1 and r = 50 and qty = None]
  from main example_bybit_fetch example_bybit_find example_binance_fetch example_binance_find nz
  show ?thesis
    by (simp add: q example_bybit_positions example_binance_positions)
qed

section \<open>The tool executor never raises\<close>

lemma execute_tool_returns: "\<exists>v. fst (execute_tool E t a) = Inr v"
  by (auto simp add: execute_tool_def split: option.splits sum.splits exn.splits prod.splits)

lemma execute_tool_handler:
  assumes "active_broker E = Some b" and "fst (execute_tool_body E b t a) = Inl e"
  shows "fst (execute_tool E t a) =
           Inr (error_result (case e of NotImplementedError m \<Rightarrow> unsupported_feature b m | _ \<Rightarrow> exn_str e))"
  using assms by (cases "execute_tool_body E b t a"; cases e) (simp_all add: execute_tool_def)

lemma unknown_tool_body:
  "t \<notin> set tool_names \<Longrightarrow> execute_tool_body E b t a = (Inr (error_result (''Unknown tool: '' @ t)), [])"
  by (simp add: tool_names_def execute_tool_body_def)

lemma execute_tool_unknown:
  "active_broker E = Some b \<Longrightarrow> t \<notin> set tool_names \<Longrightarrow>
   execute_tool E t a = (Inr (error_result (''Unknown tool: '' @ t)), [])"
  by (simp add: execute_tool_def unknown_tool_body)

lemma eval_then_calls:
  "c \<in> set (snd (eval_then m f)) \<Longrightarrow> \<exists>x. m = Inr x \<and> c \<in> set (snd (f x))"
  by (cases m) (simp_all add: eval_then_def)

lemma eval_then_Inr [simp]: "eval_then (Inr x) f = f x"
  by (simp add: eval_then_def)

lemma call_broker_raises:
  "c \<in> set (snd (call_broker b c')) \<Longrightarrow> invoke b c = Inl e \<Longrightarrow> fst (call_broker b c') = Inl e"
  by (simp add: call_broker_def)

lemma technical_calls:
  "c \<in> set (snd (technical_indicators E b a)) \<Longrightarrow> invoke b c = Inl e \<Longrightarrow>
   \<exists>msg. fst (technical_indicators E b a) = Inr (error_result msg)"
  unfolding technical_indicators_def
  by (auto dest!: eval_then_calls simp add: Let_def try_bind_def split: sum.splits if_splits)

lemma place_crypto_calls:
  "c \<in> set (snd (place_crypto_order_tool E b a)) \<Longrightarrow> invoke b c = Inl e \<Longrightarrow>
   fst (place_crypto_order_tool E b a) = Inl e"
  unfolding place_crypto_order_tool_def
  by (auto dest!: eval_then_calls simp add: Let_def call_broker_def split: if_splits)

lemma place_stock_calls:
  "c \<in> set (snd (place_stock_order_tool b a)) \<Longrightarrow> invoke b c = Inl e \<Longrightarrow>
   fst (place_stock_order_tool b a) = Inl e"
  unfolding place_stock_order_tool_def
  by (auto dest!: eval_then_calls simp add: call_broker_def)

lemma body_call_raises:
  "c \<in> set (snd (execute_tool_body E b t a)) \<Longrightarrow> invoke b c = Inl e \<Longrightarrow>
   fst (execute_tool_body E b t a) = Inl e \<or> (\<exists>msg. fst (execute_tool_body E b t a) = Inr (error_result msg))"
  unfolding execute_tool_body_def
  by (auto dest!: eval_then_calls dest: technical_calls place_crypto_calls place_stock_calls
      simp add: call_broker_def Let_def split: if_splits)


lemma snd_execute_tool:
  "active_broker E = Some b \<Longrightarrow> snd (execute_tool E t a) = snd (execute_tool_body E b t a)"
  by (auto simp add: execute_tool_def split: prod.splits sum.splits exn.splits)

lemma execute_tool_error_kept:
  "active_broker E = Some b \<Longrightarrow> fst (execute_tool_body E b t a) = Inr v \<Longrightarrow> fst (execute_tool E t a) = Inr v"
  by (cases "execute_tool_body E b t a") (simp add: execute_tool_def)

lemma execute_tool_call_raises:
  assumes b: "active_broker E = Some b"
    and c: "c \<in> set (snd (execute_tool E t a))"
    and e: "invoke b c = Inl e"
  shows "\<exists>msg. fst (execute_tool E t a) = Inr (error_result msg)"
proof -
  from b c have "c \<in> set (snd (execute_tool_body E b t a))"
    by (simp add: snd_execute_tool)
  from body_call_raises [OF this e]
  show ?thesis
  proof
    assume "fst (execute_tool_body E b t a) = Inl e"
    from execute_tool_handler [OF b this] show ?thesis
      by blast
  next
    assume "\<exists>msg. fst (execute_tool_body E b t a) = Inr (error_result msg)"
    then obtain msg where "fst (execute_tool_body E b t a) = Inr (error_result msg)"
      by blast
    from execute_tool_error_kept [OF b this] show ?thesis
      by blast
  qed
qed

text \<open>
  Claim C1. For every tool name and every argument value, \<^verbatim>\<open>execute_tool\<close> returns a
  value; no exception leaves it. With a broker active: whenever an adapter method it
  invoked raised, the result is an \<^verbatim>\<open>{"error": message}\<close> dictionary; an exception that
  leaves the \<^verbatim>\<open>try\<close> body is turned into the dictionary with \<^verbatim>\<open>str(e)\<close>, and a
  \<^verbatim>\<open>NotImplementedError\<close> into the message "<broker> doesn't support this feature: ...";
  a name outside the tool list gives "Unknown tool: <name>" and invokes nothing.
  (With no broker active every call returns the "Broker not initialized" dictionary.)
\<close>

theorem execute_tool_never_raises:
  "(\<exists>v. fst (execute_tool E t a) = Inr v)
   \<and> (active_broker E = Some b \<longrightarrow>
        (\<forall>c \<in> set (snd (execute_tool E t a)). \<forall>e. invoke b c = Inl e \<longrightarrow>
           (\<exists>msg. fst (execute_tool E t a) = Inr (error_result msg)))
      \<and> (\<forall>e. fst (execute_tool_body E b t a) = Inl e \<longrightarrow>
           fst (execute_tool E t a) =
             Inr (error_result (case e of NotImplementedError m \<Rightarrow> unsupported_feature b m | _ \<Rightarrow> exn_str e)))
      \<and> (t \<notin> set tool_names \<longrightarrow>
           execute_tool E t a = (Inr (error_result (''Unknown tool: '' @ t)), [])))"
proof (intro conjI impI ballI allI)
  show "\<exists>v. fst (execute_tool E t a) = Inr v"
    by (rule execute_tool_returns)
next
  fix c e
  assume "active_broker E = Some b" "c \<in> set (snd (execute_tool E t a))" "invoke b c = Inl e"
  then show "\<exists>msg. fst (execute_tool E t a) = Inr (error_result msg)"
    by (rule execute_tool_call_raises)
next
  fix e
  assume "active_broker E = Some b" "fst (execute_tool_body E b t a) = Inl e"
  then show "fst (execute_tool E t a) =
      Inr (error_result (case e of NotImplementedError m \<Rightarrow> unsupported_feature b m | _ \<Rightarrow> exn_str e))"
    by (rule execute_tool_handler)
next
  assume "active_broker E = Some b" "t \<notin> set tool_names"
  then show "execute_tool E t a = (Inr (error_result (''Unknown tool: '' @ t)), [])"
    by (rule execute_tool_unknown)
qed

theorem execute_tool_never_raises_witness:
  "active_broker (example_env (Some (bybit_broker example_lib 0 example_rest)))
     = Some (bybit_broker example_lib 0 example_rest)
   \<and> example_stock_call
        \<in> set (snd (execute_tool (example_env (Some (bybit_broker example_lib 0 example_rest)))
                   ''place_stock_order'' example_stock_order))
   \<and> invoke (bybit_broker example_lib 0 example_rest) example_stock_call
        = Inl (NotImplementedError ''Bybit does not support stock trading. Please use crypto symbols.'')
   \<and> fst (execute_tool_body (example_env (Some (bybit_broker example_lib 0 example_rest)))
            (bybit_broker example_lib 0 example_rest) ''place_stock_order'' example_stock_order)
        = Inl (NotImplementedError ''Bybit does not support stock trading. Please use crypto symbols.'')
   \<and> fst (execute_tool (example_env (Some (bybit_broker example_lib 0 example_rest)))
            ''place_stock_order'' example_stock_order)
        = Inr (error_result (''Bybit doesn'' @ [CHR 0x27] @
            ''t support this feature: Bybit does not support stock trading. Please use crypto symbols.''))
   \<and> ''rebalance_portfolio'' \<notin> set tool_names
   \<and> execute_tool (example_env (Some (bybit_broker example_lib 0 example_rest)))
        ''rebalance_portfolio'' (PDict [])
        = (Inr (error_result ''Unknown tool: rebalance_portfolio''), [])"
  using execute_tool_never_raises
    [where E = "example_env (Some (bybit_broker example_lib 0 example_rest))"
       and b = "bybit_broker example_lib 0 example_rest"
       and t = "''place_stock_order''" and a = example_stock_order]
    execute_tool_never_raises
    [where E = "example_env (Some (bybit_broker example_lib 0 example_rest))"
       and b = "bybit_broker example_lib 0 example_rest"
       and t = "''rebalance_portfolio''" and a = "PDict []"]
  by (simp add: execute_tool_def execute_tool_body_def call_broker_def eval_then_def
      example_env_def example_lib_def example_rest_def error_result_def dict_get_def Let_def
      place_stock_order_tool_def bybit_broker_def unsupported_feature_def
      example_stock_order_def example_stock_call_def tool_names_def)

section \<open>The leverage gate of the executor\<close>

lemma place_crypto_refused:
  assumes num: "num_val (dict_get kvs ''leverage'' (PInt 1)) = Some l"
    and gt: "l > of_int (get_max_leverage b ''crypto'')"
  shows "place_crypto_order_tool E b (PDict kvs) =
           (Inr (error_result
              (if l > 1 \<and> \<not> supports_crypto_leverage b then no_leverage_message b
               else max_leverage_message (lib E) b (get_max_leverage b ''crypto'')
                      (dict_get kvs ''leverage'' (PInt 1)))), [])"
  using num gt by (simp add: place_crypto_order_tool_def py_gt_int_def Let_def)

lemma place_crypto_forwarded:
  assumes num: "num_val (dict_get kvs ''leverage'' (PInt 1)) = Some l"
    and le: "l \<le> of_int (get_max_leverage b ''crypto'')"
    and sup: "l > 1 \<longrightarrow> supports_crypto_leverage b"
    and sym: "map_of kvs ''symbol'' = Some symbol"
    and side: "map_of kvs ''side'' = Some side"
  shows "place_crypto_order_tool E b (PDict kvs) =
           call_broker b (PlaceCryptoOrder symbol side (dict_get kvs ''qty'' PNone)
              (dict_get kvs ''notional'' PNone) (dict_get kvs ''leverage'' (PInt 1)))"
  using num le sup sym side
  by (auto simp add: place_crypto_order_tool_def py_gt_int_def Let_def)

lemma execute_tool_place_crypto:
  "active_broker E = Some b \<Longrightarrow>
   execute_tool_body E b ''place_crypto_order'' a = place_crypto_order_tool E b a"
  by (simp add: execute_tool_body_def)

text \<open>
  Claim C2, as amended. For a \<^verbatim>\<open>place_crypto_order\<close> call whose leverage \<open>L\<close> is a number
  (1 when absent) and the active broker's ceiling \<open>C = get_max_leverage('crypto')\<close>: if
  \<open>L > C\<close> the executor returns an error dictionary and invokes no adapter method; the
  message is the "doesn't support leverage trading" one when \<open>L > 1\<close> and the broker
  lacks crypto leverage, and otherwise names the maximum \<open>C\<close> and the requested \<open>L\<close>. If
  \<open>L \<le> C\<close>, the broker supports leverage when \<open>L > 1\<close>, and the call carries the
  required symbol and side, exactly one adapter method is invoked:
  \<^verbatim>\<open>place_crypto_order\<close> with the leverage value as it was received.
\<close>

theorem leverage_checked_before_dispatch:
  "active_broker E = Some b \<and> num_val (dict_get kvs ''leverage'' (PInt 1)) = Some l \<longrightarrow>
     (l > of_int (get_max_leverage b ''crypto'') \<longrightarrow>
        execute_tool E ''place_crypto_order'' (PDict kvs) =
          (Inr (error_result
             (if l > 1 \<and> \<not> supports_crypto_leverage b then no_leverage_message b
              else max_leverage_message (lib E) b (get_max_leverage b ''crypto'')
                     (dict_get kvs ''leverage'' (PInt 1)))), []))
   \<and> (l \<le> of_int (get_max_leverage b ''crypto'') \<and> (l > 1 \<longrightarrow> supports_crypto_leverage b)
        \<and> map_of kvs ''symbol'' = Some symbol \<and> map_of kvs ''side'' = Some side \<longrightarrow>
        snd (execute_tool E ''place_crypto_order'' (PDict kvs)) =
          [PlaceCryptoOrder symbol side (dict_get kvs ''qty'' PNone) (dict_get kvs ''notional'' PNone)
             (dict_get kvs ''leverage'' (PInt 1))])"
proof (intro impI conjI; elim conjE)
  assume b: "active_broker E = Some b"
    and num: "num_val (dict_get kvs ''leverage'' (PInt 1)) = Some l"
    and gt: "l > of_int (get_max_leverage b ''crypto'')"
  from place_crypto_refused [OF num gt, of E]
  show "execute_tool E ''place_crypto_order'' (PDict kvs) =
          (Inr (error_result
             (if l > 1 \<and> \<not> supports_crypto_leverage b then no_leverage_message b
              else max_leverage_message (lib E) b (get_max_leverage b ''crypto'')
                     (dict_get kvs ''leverage'' (PInt 1)))), [])"
    using b by (simp add: execute_tool_def execute_tool_place_crypto)
next
  assume b: "active_broker E = Some b"
    and num: "num_val (dict_get kvs ''leverage'' (PInt 1)) = Some l"
    and le: "l \<le> of_int (get_max_leverage b ''crypto'')"
    and sup: "l > 1 \<longrightarrow> supports_crypto_leverage b"
    and sym: "map_of kvs ''symbol'' = Some symbol"
    and side: "map_of kvs ''side'' = Some side"
  have "snd (execute_tool E ''place_crypto_order'' (PDict kvs))
          = snd (execute_tool_body E b ''place_crypto_order'' (PDict kvs))"
    using b by (auto simp add: execute_tool_def split: prod.splits sum.splits exn.splits)
  also have "\<dots> = snd (place_crypto_order_tool E b (PDict kvs))"
    using b by (simp add: execute_tool_place_crypto)
  also have "\<dots> = [PlaceCryptoOrder symbol side (dict_get kvs ''qty'' PNone) (dict_get kvs ''notional'' PNone)
             (dict_get kvs ''leverage'' (PInt 1))]"
    by (simp add: place_crypto_forwarded [OF num le sup sym side] call_broker_def)
  finally show "snd (execute_tool E ''place_crypto_order'' (PDict kvs)) =
          [PlaceCryptoOrder symbol side (dict_get kvs ''qty'' PNone) (dict_get kvs ''notional'' PNone)
             (dict_get kvs ''leverage'' (PInt 1))]" .
qed

lemma str_int_10: "str_int 10 = ''10''" by (simp add: str_int_def digit_char_def)
lemma str_int_100: "str_int 100 = ''100''" by (simp add: str_int_def digit_char_def)
lemma str_int_101: "str_int 101 = ''101''" by (simp add: str_int_def digit_char_def)

text \<open>
  Claim C2 as stated fails on Alpaca, whose ceiling is 1: a request for 10x is above the
  ceiling, yet the error returned is the capability message, which does not name the
  maximum; it is not the "max leverage is 1x" message.
\<close>

theorem unsupported_leverage_message_counterexample:
  "get_max_leverage (alpaca_broker example_rest) ''crypto'' = 1
   \<and> execute_tool (example_env (Some (alpaca_broker example_rest))) ''place_crypto_order'' (example_order 10)
     = (Inr (error_result (''Alpaca doesn'' @ [CHR 0x27] @
          ''t support leverage trading. Switch to Bybit or Binance for leverage trading.'')), [])
   \<and> max_leverage_message example_lib (alpaca_broker example_rest) 1 (PInt 10)
     = ''Alpaca max leverage is 1x, you requested 10x''
   \<and> fst (execute_tool (example_env (Some (alpaca_broker example_rest))) ''place_crypto_order'' (example_order 10))
     \<noteq> Inr (error_result (max_leverage_message example_lib (alpaca_broker example_rest) 1 (PInt 10)))"
  by (simp add: execute_tool_def execute_tool_body_def call_broker_def eval_then_def
      example_env_def example_lib_def example_rest_def error_result_def dict_get_def Let_def
      place_crypto_order_tool_def py_gt_int_def alpaca_broker_def bybit_broker_def
      leverage_ceiling_def crypto_classes_def example_order_def no_leverage_message_def
      max_leverage_message_def str_int_1 str_int_10 str_int_100 str_int_101)

theorem leverage_checked_before_dispatch_witness:
  "active_broker (example_env (Some (bybit_broker example_lib 0 example_rest)))
     = Some (bybit_broker example_lib 0 example_rest)
   \<and> get_max_leverage (bybit_broker example_lib 0 example_rest) ''crypto'' = 100
   \<and> execute_tool (example_env (Some (bybit_broker example_lib 0 example_rest)))
        ''place_crypto_order'' (example_order 101)
      = (Inr (error_result ''Bybit max leverage is 100x, you requested 101x''), [])
   \<and> snd (execute_tool (example_env (Some (bybit_broker example_lib 0 example_rest)))
        ''place_crypto_order'' (example_order 10))
      = [PlaceCryptoOrder (PStr ''BTC/USD'') (PStr ''buy'') (PInt 1) PNone (PInt 10)]"
  using leverage_checked_before_dispatch
    [where E = "example_env (Some (bybit_broker example_lib 0 example_rest))"
       and b = "bybit_broker example_lib 0 example_rest"
       and kvs = "[(''symbol'', PStr ''BTC/USD''), (''side'', PStr ''buy''), (''qty'', PInt 1), (''leverage'', PInt 101)]"
       and l = 101 and symbol = "PStr ''BTC/USD''" and side = "PStr ''buy''"]
    leverage_checked_before_dispatch
    [where E = "example_env (Some (bybit_broker example_lib 0 example_rest))"
       and b = "bybit_broker example_lib 0 example_rest"
       and kvs = "[(''symbol'', PStr ''BTC/USD''), (''side'', PStr ''buy''), (''qty'', PInt 1), (''leverage'', PInt 10)]"
       and l = 10 and symbol = "PStr ''BTC/USD''" and side = "PStr ''buy''"]
  by (simp add: execute_tool_def execute_tool_body_def call_broker_def eval_then_def
      example_env_def example_lib_def example_rest_def error_result_def dict_get_def Let_def
      place_crypto_order_tool_def py_gt_int_def alpaca_broker_def bybit_broker_def
      leverage_ceiling_def crypto_classes_def example_order_def no_leverage_message_def
      max_leverage_message_def str_int_1 str_int_10 str_int_100 str_int_101)

section \<open>Bounds and order of the tool loops\<close>

lemma round_trips_after_turn [simp]: "round_trips (after_turn ex r) = Suc (round_trips r)"
  by (simp add: after_turn_def)

lemma outcome_after_turn [simp]: "outcome (after_turn ex r) = outcome r"
  by (simp add: after_turn_def)

lemma claude_loop_bound: "round_trips (claude_loop E client turn n messages) \<le> n"
proof (induction n arbitrary: turn messages)
  case 0
  show ?case by simp
next
  case (Suc n)
  show ?case
  proof (cases "client turn messages")
    case (Inl e)
    then show ?thesis by simp
  next
    case (Inr response)
    show ?thesis
    proof (cases "claude_tool_results E (resp_content response)")
      case (Pair r ex)
      with Inr Suc.IH show ?thesis
        by (cases r) (simp_all add: Let_def)
    qed
  qed
qed

lemma deepseek_loop_bound: "round_trips (deepseek_loop E client turn n messages) \<le> n"
proof (induction n arbitrary: turn messages)
  case 0
  show ?case by simp
next
  case (Suc n)
  show ?case
  proof (cases "client turn messages")
    case (Inl e)
    then show ?thesis by simp
  next
    case (Inr msg)
    obtain r messages' ex
      where d: "deepseek_tool_calls E (msg_tool_calls msg) (messages @ [AssistantMessage msg]) = (r, messages', ex)"
      by (cases "deepseek_tool_calls E (msg_tool_calls msg) (messages @ [AssistantMessage msg])")
    with Inr Suc.IH show ?thesis
      by (cases r) simp_all
  qed
qed

lemma serializable_dumps:
  "results_serializable E \<Longrightarrow> \<exists>v. fst (execute_tool E name args) = Inr v \<and> json_dumps (lib E) v = Inr (json_text (lib E) v)"
  using execute_tool_returns [of E name args]
  by (auto simp add: results_serializable_def json_dumps_def)

lemma claude_tool_results_ok:
  assumes ser: "results_serializable E"
  shows "\<exists>rs ex. claude_tool_results E bs = (Inr rs, ex)"
proof (induction bs)
  case Nil
  show ?case by simp
next
  case (Cons b bs)
  then obtain rs ex where ih: "claude_tool_results E bs = (Inr rs, ex)"
    by blast
  show ?case
  proof (cases b)
    case (ToolUseBlock i name input)
    from serializable_dumps [OF ser, of name input] ih ToolUseBlock show ?thesis
      by auto
  qed (simp_all add: ih)
qed

lemma deepseek_tool_calls_ok:
  assumes ser: "results_serializable E"
  shows "\<forall>tc \<in> set tcs. \<exists>a. json_parse (lib E) (call_arguments tc) = Inr a \<Longrightarrow>
         \<exists>messages' ex. deepseek_tool_calls E tcs messages = (None, messages', ex)"
proof (induction tcs arbitrary: messages)
  case Nil
  show ?case by simp
next
  case (Cons tc tcs)
  then obtain a where a: "json_parse (lib E) (call_arguments tc) = Inr a"
    by auto
  from serializable_dumps [OF ser, of "call_name tc" a]
  obtain v where v: "fst (execute_tool E (call_name tc) a) = Inr v"
      "json_dumps (lib E) v = Inr (json_text (lib E) v)"
    by blast
  from Cons obtain messages' ex
    where "deepseek_tool_calls E tcs (messages @ [ToolMessage (call_id tc) (json_text (lib E) v)]) = (None, messages', ex)"
    by fastforce
  with a v show ?case
    by simp
qed

lemma claude_loop_exhausts:
  assumes ser: "results_serializable E" and tool: "always_tool_use client"
  shows "outcome (claude_loop E client turn n messages) = Inr (Some max_turns_reached)
         \<and> round_trips (claude_loop E client turn n messages) = n"
proof (induction n arbitrary: turn messages)
  case 0
  show ?case by simp
next
  case (Suc n)
  from tool obtain r where r: "client turn messages = Inr r" "resp_stop_reason r = ''tool_use''"
    unfolding always_tool_use_def by blast
  from claude_tool_results_ok [OF ser, of "resp_content r"]
  obtain rs ex where "claude_tool_results E (resp_content r) = (Inr rs, ex)"
    by blast
  with r Suc.IH show ?case
    by (simp add: Let_def)
qed

lemma deepseek_loop_exhausts:
  assumes ser: "results_serializable E" and tool: "always_tool_calls E client"
  shows "outcome (deepseek_loop E client turn n messages) = Inr (Some max_turns_reached)
         \<and> round_trips (deepseek_loop E client turn n messages) = n"
proof (induction n arbitrary: turn messages)
  case 0
  show ?case by simp
next
  case (Suc n)
  from tool obtain m where m: "client turn messages = Inr m" "msg_tool_calls m \<noteq> []"
      "\<forall>tc \<in> set (msg_tool_calls m). \<exists>a. json_parse (lib E) (call_arguments tc) = Inr a"
    unfolding always_tool_calls_def by blast
  from deepseek_tool_calls_ok [OF ser m(3), of "messages @ [AssistantMessage m]"]
  obtain messages' ex
    where "deepseek_tool_calls E (msg_tool_calls m) (messages @ [AssistantMessage m]) = (None, messages', ex)"
    by blast
  with m Suc.IH show ?case
    by simp
qed

text \<open>
  Claim C6. Whatever the model answers, each backend loop makes at most \<open>max_turns\<close>
  requests to the model (the loops are total functions, so they terminate). Against a
  model that asks for tools on every turn, in surroundings where every tool result can
  be serialised (and, for Protocol B, every argument text parses), the loop makes
  exactly \<open>max_turns\<close> requests and then returns the fixed string "Max turns reached."
  instead of raising.
\<close>

theorem orchestrator_bounded_by_max_turns:
  "round_trips (call_claude_with_tools E claude messages max_turns) \<le> nat max_turns
   \<and> round_trips (call_deepseek_with_tools E deepseek messages max_turns) \<le> nat max_turns
   \<and> (results_serializable E \<and> always_tool_use claude \<longrightarrow>
        outcome (call_claude_with_tools E claude messages max_turns) = Inr (Some ''Max turns reached.'')
        \<and> round_trips (call_claude_with_tools E claude messages max_turns) = nat max_turns)
   \<and> (results_serializable E \<and> always_tool_calls E deepseek \<longrightarrow>
        outcome (call_deepseek_with_tools E deepseek messages max_turns) = Inr (Some ''Max turns reached.'')
        \<and> round_trips (call_deepseek_with_tools E deepseek messages max_turns) = nat max_turns)"
proof -
  have a: "round_trips (call_claude_with_tools E claude messages max_turns) \<le> nat max_turns"
    unfolding call_claude_with_tools_def by (rule claude_loop_bound)
  have b: "round_trips (call_deepseek_with_tools E deepseek messages max_turns) \<le> nat max_turns"
    unfolding call_deepseek_with_tools_def by (rule deepseek_loop_bound)
  have c: "outcome (call_claude_with_tools E claude messages max_turns) = Inr (Some ''Max turns reached.'')
        \<and> round_trips (call_claude_with_tools E claude messages max_turns) = nat max_turns"
    if "results_serializable E" "always_tool_use claude"
    using claude_loop_exhausts [OF that, of 0 "nat max_turns" messages]
    by (simp add: call_claude_with_tools_def max_turns_reached_def)
  have d: "outcome (call_deepseek_with_tools E deepseek messages max_turns) = Inr (Some ''Max turns reached.'')
        \<and> round_trips (call_deepseek_with_tools E deepseek messages max_turns) = nat max_turns"
    if "results_serializable E" "always_tool_calls E deepseek"
    using deepseek_loop_exhausts [OF that, of 0 "nat max_turns" messages]
    by (simp add: call_deepseek_with_tools_def max_turns_reached_def)
  from a b c d show ?thesis
    by blast
qed

lemma example_serializable: "results_serializable (example_env None)"
  by (simp add: results_serializable_def execute_tool_def example_env_def error_result_def)

lemma insistent_claude_tool: "always_tool_use insistent_claude"
  by (simp add: always_tool_use_def insistent_claude_def)

lemma insistent_deepseek_tool: "always_tool_calls (example_env None) insistent_deepseek"
  by (simp add: always_tool_calls_def insistent_deepseek_def example_env_def example_lib_def)

theorem orchestrator_bounded_by_max_turns_witness:
  "results_serializable (example_env None) \<and> always_tool_use insistent_claude
   \<and> always_tool_calls (example_env None) insistent_deepseek
   \<and> outcome (call_claude_with_tools (example_env None) insistent_claude [UserText ''hello''] 3)
        = Inr (Some ''Max turns reached.'')
   \<and> round_trips (call_claude_with_tools (example_env None) insistent_claude [UserText ''hello''] 3) = 3
   \<and> outcome (call_deepseek_with_tools (example_env None) insistent_deepseek [UserText ''hello''] 3)
        = Inr (Some ''Max turns reached.'')
   \<and> round_trips (call_deepseek_with_tools (example_env None) insistent_deepseek [UserText ''hello''] 3) = 3"
  using orchestrator_bounded_by_max_turns
    [of "example_env None" insistent_claude "[UserText ''hello'']" 3 insistent_deepseek]
    example_serializable insistent_claude_tool insistent_deepseek_tool
  by simp


lemma deepseek_results_in_order:
  assumes ser: "results_serializable E"
  shows "\<forall>tc \<in> set tcs. \<exists>a. json_parse (lib E) (call_arguments tc) = Inr a \<Longrightarrow>
         deepseek_tool_calls E tcs messages =
           (None,
            messages @ map (\<lambda>tc. ToolMessage (call_id tc)
                                 (result_text E (call_name tc) (parsed_arguments E tc))) tcs,
            map (\<lambda>tc. (call_id tc, call_name tc, parsed_arguments E tc)) tcs)"
proof (induction tcs arbitrary: messages)
  case Nil
  show ?case by simp
next
  case (Cons tc tcs)
  then obtain a where a: "json_parse (lib E) (call_arguments tc) = Inr a"
    by auto
  from serializable_dumps [OF ser, of "call_name tc" a]
  obtain v where v: "fst (execute_tool E (call_name tc) a) = Inr v"
      "json_dumps (lib E) v = Inr (json_text (lib E) v)"
    by blast
  from Cons.prems have rest: "\<forall>tc \<in> set tcs. \<exists>a. json_parse (lib E) (call_arguments tc) = Inr a"
    by simp
  show ?case
    using a v Cons.IH [OF rest]
    by (simp add: parsed_arguments_def result_text_def)
qed

lemma claude_results_in_order:
  assumes ser: "results_serializable E"
  shows "claude_tool_results E bs =
           (Inr (map (\<lambda>(i, name, input). (i, result_text E name input)) (tool_uses bs)), tool_uses bs)"
proof (induction bs)
  case Nil
  show ?case by simp
next
  case (Cons b bs)
  show ?case
  proof (cases b)
    case (ToolUseBlock i name input)
    from serializable_dumps [OF ser, of name input]
    obtain v where "fst (execute_tool E name input) = Inr v"
        "json_dumps (lib E) v = Inr (json_text (lib E) v)"
      by blast
    with Cons ToolUseBlock show ?thesis
      by (simp add: result_text_def)
  qed (simp_all add: Cons)
qed

text \<open>
  Claim C7 requires every tool call of a turn to be executed and answered, in order. The
  two lemmas above show that the loops do so whenever every result can be serialised.
  They do not when a result cannot: with the Binance adapter, \<^verbatim>\<open>get_market_clock\<close> returns
  \<^verbatim>\<open>datetime\<close> objects, \<^verbatim>\<open>json.dumps\<close> raises on them, and the exception leaves the loop. For
  a turn that asks for the market clock and then for the account, under either protocol,
  no tool result is appended, the second call is never executed, and the conversation
  ends with the \<^verbatim>\<open>TypeError\<close>.
\<close>

theorem unserializable_result_aborts_turn:
  "deepseek_tool_calls (example_env (Some (binance_broker 0 example_rest))) clock_then_account
       [UserText ''status?'']
     = (Some (TypeError ''Object of type datetime is not JSON serializable''),
        [UserText ''status?''],
        [(''call_1'', ''get_market_clock'', PDict [])])
   \<and> claude_tool_results (example_env (Some (binance_broker 0 example_rest))) clock_then_account_blocks
     = (Inl (TypeError ''Object of type datetime is not JSON serializable''),
        [(''toolu_1'', ''get_market_clock'', PDict [])])
   \<and> outcome (call_deepseek_with_tools (example_env (Some (binance_broker 0 example_rest)))
        clock_then_account_deepseek [UserText ''status?''] 10)
     = Inl (TypeError ''Object of type datetime is not JSON serializable'')
   \<and> outcome (call_claude_with_tools (example_env (Some (binance_broker 0 example_rest)))
        clock_then_account_claude [UserText ''status?''] 10)
     = Inl (TypeError ''Object of type datetime is not JSON serializable'')"
  by (simp add: execute_tool_def execute_tool_body_def call_broker_def eval_then_def
      example_env_def example_lib_def example_rest_def error_result_def dict_get_def Let_def
      binance_broker_def json_dumps_def clock_then_account_def clock_then_account_blocks_def
      call_deepseek_with_tools_def call_claude_with_tools_def clock_then_account_deepseek_def
      clock_then_account_claude_def eval_nat_numeral)

section \<open>The autotrading pass after an exception\<close>

lemma autotrading_exception_sleeps_sixty:
  "fst (autotrading_try E A config (audit_log st)) = Inl e \<Longrightarrow>
   slept (autotrading_iteration E A config st) = slept st @ [60]"
  by (cases "autotrading_try E A config (audit_log st)") (simp add: autotrading_iteration_def)

lemma autotrading_iteration_continues:
  "active i \<Longrightarrow> world i = (E, A, config) \<Longrightarrow>
   autotrading_passes active world (Suc fuel) i st
     = autotrading_passes active world fuel (Suc i) (autotrading_iteration E A config st)"
  by simp

text \<open>
  The loop is still running for as long as the flag is read as set, whatever the passes
  raise, and it returns as soon as the flag is read as cleared at the top of a pass.
\<close>

lemma autotrading_runs_while_flag:
  "(\<forall>j. i \<le> j \<and> j < i + fuel \<longrightarrow> active j) \<Longrightarrow> autotrading_passes active world fuel i st = None"
proof (induction fuel arbitrary: i st)
  case 0
  show ?case by simp
next
  case (Suc fuel)
  from Suc.prems have here: "active i"
    by simp
  from Suc.prems have later: "\<forall>j. Suc i \<le> j \<and> j < Suc i + fuel \<longrightarrow> active j"
    by simp
  obtain E A config where w: "world i = (E, A, config)"
    by (cases "world i") auto
  from Suc.IH [OF later] here w show ?case
    by simp
qed

lemma autotrading_stops_at_flag:
  "(\<forall>j. i \<le> j \<and> j < i + k \<longrightarrow> active j) \<Longrightarrow> \<not> active (i + k) \<Longrightarrow>
   \<exists>st'. autotrading_passes active world (Suc k) i st = Some st'"
proof (induction k arbitrary: i st)
  case 0
  obtain E A config where "world i = (E, A, config)"
    by (cases "world i") auto
  with 0 show ?case
    by simp
next
  case (Suc k)
  from Suc.prems have here: "active i"
    by simp
  from Suc.prems have later: "\<forall>j. Suc i \<le> j \<and> j < Suc i + k \<longrightarrow> active j"
    and stop: "\<not> active (Suc i + k)"
    by simp_all
  obtain E A config where w: "world i = (E, A, config)"
    by (cases "world i") auto
  from Suc.IH [OF later stop, of "autotrading_iteration E A config st"] here w
  show ?case
    by simp
qed

text \<open>
  Claim C9 asks for a fixed 30-second sleep after a pass in which an exception surfaced.
  The loop does log the error and go on (the lemmas above), but the handler sleeps 60
  seconds: with the venue unreachable and an interval of 15 seconds configured, the pass
  logs "Auto-trading error: Connection refused" and sleeps 60; with the venue reachable
  it sleeps the configured 15.
\<close>

theorem autotrading_fallback_is_sixty_seconds:
  "fst (autotrading_try (example_env (Some (bybit_broker example_lib 0 unreachable))) example_ai
         example_config [])
     = Inl (OtherError ''Connection refused'')
   \<and> slept (autotrading_iteration (example_env (Some (bybit_broker example_lib 0 unreachable))) example_ai
         example_config \<lparr>audit_log = [], slept = []\<rparr>) = [60]
   \<and> map message (audit_log (autotrading_iteration (example_env (Some (bybit_broker example_lib 0 unreachable)))
         example_ai example_config \<lparr>audit_log = [], slept = []\<rparr>))
     = [''Auto-trading error: Connection refused'']
   \<and> slept (autotrading_iteration (example_env (Some (bybit_broker example_lib 0 example_rest))) example_ai
         example_config \<lparr>audit_log = [], slept = []\<rparr>) = [15]"
  by (simp add: autotrading_iteration_def autotrading_try_def unreachable_def example_env_def
      bybit_broker_def example_lib_def try_bind_def example_ai_def example_config_def log_line_def
      add_autotrading_log_def Let_def example_rest_def trading_context_def format_2f_def dict_get_def
      call_ai_with_tools_def call_claude_with_tools_def eval_nat_numeral py_sleep_def)

end
